theory Spec2Isabelle
  imports Complex_Main
begin

section \<open>Numbers and text\<close>

text \<open>
  The OBJ writer computes with JavaScript numbers. A finite number is a \<^typ>\<open>real\<close> here;
  rounding, NaN, the infinities and the sign of zero are not represented. Where the
  writer turns a computed coordinate or index into text, that text is a parameter of
  the model (record \<open>numberText\<close> below), so that what is proved of the
  writer holds whatever the floating-point text is.
\<close>

definition newline :: char where
  "newline = CHR 0x0A"

text \<open>\<^verbatim>\<open>Array.prototype.join("\n")\<close>\<close>

fun join :: "string list \<Rightarrow> string" where
  "join [] = []"
| "join [l] = l"
| "join (l # k # ls) = l @ newline # join (k # ls)"

definition digit :: "nat \<Rightarrow> char" where
  "digit d = (if d = 0 then CHR ''0'' else if d = 1 then CHR ''1'' else if d = 2 then CHR ''2''
     else if d = 3 then CHR ''3'' else if d = 4 then CHR ''4'' else if d = 5 then CHR ''5''
     else if d = 6 then CHR ''6'' else if d = 7 then CHR ''7'' else if d = 8 then CHR ''8''
     else CHR ''9'')"

text \<open>The text of a non-negative integer, as a template literal prints it.\<close>

fun natText :: "nat \<Rightarrow> string" where
  "natText n = (if n < 10 then [digit n] else natText (n div 10) @ [digit (n mod 10)])"

declare natText.simps [simp del]

section \<open>The part of three.js the writer calls\<close>

text \<open>
  \<^verbatim>\<open>THREE.Matrix4\<close> keeps its sixteen numbers in \<^verbatim>\<open>elements\<close>, column by column:
  \<open>te0 .. te3\<close> are column 0, \<open>te4 .. te7\<close> column 1, \<open>te8 .. te11\<close> column 2 and
  \<open>te12 .. te15\<close> column 3. three.js is a dependency of the repository; the
  methods below are transcribed from its \<^verbatim>\<open>Matrix4\<close>, \<^verbatim>\<open>Vector3\<close> and
  \<^verbatim>\<open>Quaternion\<close> classes.
\<close>

record Matrix4 =
  te0 :: real
  te1 :: real
  te2 :: real
  te3 :: real
  te4 :: real
  te5 :: real
  te6 :: real
  te7 :: real
  te8 :: real
  te9 :: real
  te10 :: real
  te11 :: real
  te12 :: real
  te13 :: real
  te14 :: real
  te15 :: real

datatype Vector3 = Vector3 real real real

datatype Quaternion = Quaternion real real real real

text \<open>
  \<^verbatim>\<open>Matrix4.set(n11, n12, n13, n14, n21, ..., n44)\<close> takes its arguments row by row
  and stores them column by column.
\<close>

definition Matrix4_set ::
  "real \<Rightarrow> real \<Rightarrow> real \<Rightarrow> real \<Rightarrow> real \<Rightarrow> real \<Rightarrow> real \<Rightarrow> real \<Rightarrow>
   real \<Rightarrow> real \<Rightarrow> real \<Rightarrow> real \<Rightarrow> real \<Rightarrow> real \<Rightarrow> real \<Rightarrow> real \<Rightarrow> Matrix4" where
  "Matrix4_set n11 n12 n13 n14 n21 n22 n23 n24 n31 n32 n33 n34 n41 n42 n43 n44 =
     \<lparr> te0 = n11, te1 = n21, te2 = n31, te3 = n41,
       te4 = n12, te5 = n22, te6 = n32, te7 = n42,
       te8 = n13, te9 = n23, te10 = n33, te11 = n43,
       te12 = n14, te13 = n24, te14 = n34, te15 = n44 \<rparr>"

definition identity :: Matrix4 where
  "identity = Matrix4_set 1 0 0 0  0 1 0 0  0 0 1 0  0 0 0 1"

text \<open>\<^verbatim>\<open>Matrix4.compose(position, quaternion, scale)\<close>\<close>

fun compose :: "Vector3 \<Rightarrow> Quaternion \<Rightarrow> Vector3 \<Rightarrow> Matrix4" where
  "compose (Vector3 px py pz) (Quaternion x y z w) (Vector3 sx sy sz) =
     (let x2 = x + x; y2 = y + y; z2 = z + z;
          xx = x * x2; xy = x * y2; xz = x * z2;
          yy = y * y2; yz = y * z2; zz = z * z2;
          wx = w * x2; wy = w * y2; wz = w * z2
      in \<lparr> te0 = (1 - (yy + zz)) * sx, te1 = (xy + wz) * sx, te2 = (xz - wy) * sx, te3 = 0,
           te4 = (xy - wz) * sy, te5 = (1 - (xx + zz)) * sy, te6 = (yz + wx) * sy, te7 = 0,
           te8 = (xz + wy) * sz, te9 = (yz - wx) * sz, te10 = (1 - (xx + yy)) * sz, te11 = 0,
           te12 = px, te13 = py, te14 = pz, te15 = 1 \<rparr>)"

text \<open>\<^verbatim>\<open>matrix.makeRotationFromQuaternion(q)\<close> overwrites the whole matrix.\<close>

definition makeRotationFromQuaternion :: "Quaternion \<Rightarrow> Matrix4" where
  "makeRotationFromQuaternion q = compose (Vector3 0 0 0) q (Vector3 1 1 1)"

text \<open>\<^verbatim>\<open>matrix.scale(v)\<close> multiplies the first three columns in place.\<close>

fun Matrix4_scale :: "Matrix4 \<Rightarrow> Vector3 \<Rightarrow> Matrix4" where
  "Matrix4_scale m (Vector3 x y z) =
     m \<lparr> te0 := te0 m * x, te4 := te4 m * y, te8 := te8 m * z,
         te1 := te1 m * x, te5 := te5 m * y, te9 := te9 m * z,
         te2 := te2 m * x, te6 := te6 m * y, te10 := te10 m * z,
         te3 := te3 m * x, te7 := te7 m * y, te11 := te11 m * z \<rparr>"

text \<open>\<^verbatim>\<open>matrix.setPosition(x, y, z)\<close>\<close>

definition setPosition :: "Matrix4 \<Rightarrow> real \<Rightarrow> real \<Rightarrow> real \<Rightarrow> Matrix4" where
  "setPosition m x y z = m \<lparr> te12 := x, te13 := y, te14 := z \<rparr>"

text \<open>
  The matrices the specification composes: \<^verbatim>\<open>makeScale\<close>, \<^verbatim>\<open>makeTranslation\<close>
  and the product \<^verbatim>\<open>multiplyMatrices(a, b)\<close> of three.js. The writer does not call
  them; they state what its in-place updates amount to.
\<close>

fun makeScale :: "Vector3 \<Rightarrow> Matrix4" where
  "makeScale (Vector3 x y z) = Matrix4_set x 0 0 0  0 y 0 0  0 0 z 0  0 0 0 1"

fun makeTranslation :: "Vector3 \<Rightarrow> Matrix4" where
  "makeTranslation (Vector3 x y z) = Matrix4_set 1 0 0 x  0 1 0 y  0 0 1 z  0 0 0 1"

definition multiplyMatrices :: "Matrix4 \<Rightarrow> Matrix4 \<Rightarrow> Matrix4" where
  "multiplyMatrices a b =
     (let a11 = te0 a; a12 = te4 a; a13 = te8 a; a14 = te12 a;
          a21 = te1 a; a22 = te5 a; a23 = te9 a; a24 = te13 a;
          a31 = te2 a; a32 = te6 a; a33 = te10 a; a34 = te14 a;
          a41 = te3 a; a42 = te7 a; a43 = te11 a; a44 = te15 a;
          b11 = te0 b; b12 = te4 b; b13 = te8 b; b14 = te12 b;
          b21 = te1 b; b22 = te5 b; b23 = te9 b; b24 = te13 b;
          b31 = te2 b; b32 = te6 b; b33 = te10 b; b34 = te14 b;
          b41 = te3 b; b42 = te7 b; b43 = te11 b; b44 = te15 b
      in \<lparr> te0 = a11 * b11 + a12 * b21 + a13 * b31 + a14 * b41,
           te1 = a21 * b11 + a22 * b21 + a23 * b31 + a24 * b41,
           te2 = a31 * b11 + a32 * b21 + a33 * b31 + a34 * b41,
           te3 = a41 * b11 + a42 * b21 + a43 * b31 + a44 * b41,
           te4 = a11 * b12 + a12 * b22 + a13 * b32 + a14 * b42,
           te5 = a21 * b12 + a22 * b22 + a23 * b32 + a24 * b42,
           te6 = a31 * b12 + a32 * b22 + a33 * b32 + a34 * b42,
           te7 = a41 * b12 + a42 * b22 + a43 * b32 + a44 * b42,
           te8 = a11 * b13 + a12 * b23 + a13 * b33 + a14 * b43,
           te9 = a21 * b13 + a22 * b23 + a23 * b33 + a24 * b43,
           te10 = a31 * b13 + a32 * b23 + a33 * b33 + a34 * b43,
           te11 = a41 * b13 + a42 * b23 + a43 * b33 + a44 * b43,
           te12 = a11 * b14 + a12 * b24 + a13 * b34 + a14 * b44,
           te13 = a21 * b14 + a22 * b24 + a23 * b34 + a24 * b44,
           te14 = a31 * b14 + a32 * b24 + a33 * b34 + a34 * b44,
           te15 = a41 * b14 + a42 * b24 + a43 * b34 + a44 * b44 \<rparr>)"

section \<open>The intermediate scene format\<close>

text \<open>
  The writer reads a scene through the interface \<^verbatim>\<open>IMF.IScene\<close>. A transform is a
  matrix (an array of numbers) or is decomposed into an optional translation, an
  optional rotation and an optional scale, in this order of the constructor's arguments.
\<close>

datatype ITransform =
    MatrixTransform "real list"
  | DecomposedTransform "Vector3 option" "Quaternion option" "Vector3 option"

record IObjectNode =
  dbid :: nat
  geometry :: nat
  transform :: "ITransform option"

text \<open>
  A node is an object node or of another kind (a group, a camera, a light); of the
  other kinds the writer reads only \<^verbatim>\<open>node.kind.toString()\<close>, which the constructor
  carries. A geometry is a mesh or of another kind, carried likewise.
\<close>

datatype INode = ObjectNode IObjectNode | OtherNode string

text \<open>
  A mesh gives its buffers as typed arrays: \<^verbatim>\<open>getIndices()\<close> of unsigned integers,
  \<^verbatim>\<open>getVertices()\<close> of numbers, \<^verbatim>\<open>getNormals()\<close> of numbers or undefined.
\<close>

record IMeshGeometry =
  getIndices :: "nat list"
  getVertices :: "real list"
  getNormals :: "real list option"

datatype IGeometry = Mesh IMeshGeometry | OtherGeometry string

text \<open>
  The scene interface: \<^verbatim>\<open>getMetadata()\<close> (a key is mapped to the \<^verbatim>\<open>value\<close> of its
  entry), \<^verbatim>\<open>getNodeCount()\<close>, \<^verbatim>\<open>getNode(i)\<close> and \<^verbatim>\<open>getGeometry(id)\<close>.
\<close>

record IScene =
  getMetadata :: "string \<rightharpoonup> string"
  getNodeCount :: nat
  getNode :: "nat \<Rightarrow> INode"
  getGeometry :: "nat \<Rightarrow> IGeometry"

text \<open>
  The property database interface: \<^verbatim>\<open>getProperties(dbid)\<close> and
  \<^verbatim>\<open>findPropertyRecursive(dbid, keys)\<close>, whose result is a string or undefined.
\<close>

record PropDbReader =
  getProperties :: "nat \<Rightarrow> (string \<rightharpoonup> string)"
  findPropertyRecursive :: "nat \<Rightarrow> string list \<Rightarrow> string option"

text \<open>The writer's options; the \<^verbatim>\<open>log\<close> callback is modelled by the list of its messages.\<close>

record IWriterOptions =
  skipNormals :: bool

section \<open>The transform of a node\<close>

text \<open>
  \<^verbatim>\<open>Writer.nodeTransform\<close>. Reading a JavaScript array past its end gives
  \<^verbatim>\<open>undefined\<close>, which \<^verbatim>\<open>Matrix4.set\<close> stores as it is: the result is then no
  matrix of numbers, and the model returns \<open>None\<close>.
\<close>

definition nodeTransform :: "IObjectNode \<Rightarrow> Matrix4 option" where
  "nodeTransform node =
     (case transform node of
        None \<Rightarrow> Some identity
      | Some (MatrixTransform m) \<Rightarrow>
          (if length m < 16 then None
           else Some (Matrix4_set
                  (m ! 0) (m ! 1) (m ! 2) (m ! 3)
                  (m ! 4) (m ! 5) (m ! 6) (m ! 7)
                  (m ! 8) (m ! 9) (m ! 10) (m ! 11)
                  (m ! 12) (m ! 13) (m ! 14) (m ! 15)))
      | Some (DecomposedTransform t r s) \<Rightarrow>
          (let matrix0 = identity;
               matrix1 = (case r of None \<Rightarrow> matrix0 | Some q \<Rightarrow> makeRotationFromQuaternion q);
               matrix2 = (case s of None \<Rightarrow> matrix1 | Some v \<Rightarrow> Matrix4_scale matrix1 v);
               matrix3 = (case t of None \<Rightarrow> matrix2
                          | Some (Vector3 x y z) \<Rightarrow> setPosition matrix2 x y z)
           in Some matrix3))"

section \<open>The unit of length\<close>

text \<open>
  \<^verbatim>\<open>Writer.getRootScale\<close> reads \<^verbatim>\<open>metadata['distance unit']?.value\<close>. An empty
  string is falsy in JavaScript and skips the \<^verbatim>\<open>switch\<close>.
\<close>

definition getRootScale :: "IScene \<Rightarrow> real" where
  "getRootScale imf =
     (let metadata = getMetadata imf in
      case metadata ''distance unit'' of
        None \<Rightarrow> 1
      | Some distanceUnit \<Rightarrow>
          (if distanceUnit = [] then 1
           else if distanceUnit = ''centimeter'' \<or> distanceUnit = ''cm'' then 0.01
           else if distanceUnit = ''millimeter'' \<or> distanceUnit = ''mm'' then 0.001
           else if distanceUnit = ''foot'' \<or> distanceUnit = ''ft'' then 0.3048
           else if distanceUnit = ''inch'' \<or> distanceUnit = ''in'' then 0.0254
           else 1.0))"

section \<open>Classifying and grouping the object nodes\<close>

text \<open>
  \<^verbatim>\<open>ObjectNodes = Map<string, NodeID[]>\<close>: a JavaScript map iterates in the order in
  which its keys were first set, so it is a list of pairs with distinct keys.
  \<open>pushNode m gid i\<close> is \<^verbatim>\<open>m.get(id)?.push(i) ?? m.set(id, [i])\<close>.
\<close>

type_synonym ObjectNodes = "(string \<times> nat list) list"

fun pushNode :: "ObjectNodes \<Rightarrow> string \<Rightarrow> nat \<Rightarrow> ObjectNodes" where
  "pushNode [] gid i = [(gid, [i])]"
| "pushNode ((k, v) # m) gid i =
     (if k = gid then (k, v @ [i]) # m else (k, v) # pushNode m gid i)"

record NodeInfo =
  buildingNodes :: ObjectNodes
  openingNodes :: ObjectNodes
  logged :: "string list"

text \<open>
  \<^verbatim>\<open>isOpening\<close> and \<^verbatim>\<open>id\<close> (here \<open>groupKey\<close>) of the loop body of \<^verbatim>\<open>Writer.getObjectNodes\<close>, for an
  optional property database (\<^verbatim>\<open>propdb?.\<close>).
\<close>

definition isOpening :: "PropDbReader option \<Rightarrow> IObjectNode \<Rightarrow> bool" where
  "isOpening propdb node =
     (case propdb of
        None \<Rightarrow> False
      | Some db \<Rightarrow>
          (let props = getProperties db (dbid node)
           in props ''Element:IfcExportAs'' = Some ''IfcOpeningElement''))"

definition groupKey :: "PropDbReader option \<Rightarrow> IObjectNode \<Rightarrow> string" where
  "groupKey propdb node =
     (case (case propdb of
              None \<Rightarrow> None
            | Some db \<Rightarrow> findPropertyRecursive db (dbid node) [''IFC:GLOBALID'', ''Element:IfcGUID''])
      of None \<Rightarrow> ''dbid-'' @ natText (dbid node)
       | Some v \<Rightarrow> v)"

definition getObjectNodes_body :: "IScene \<Rightarrow> PropDbReader option \<Rightarrow> nat \<Rightarrow> NodeInfo \<Rightarrow> NodeInfo" where
  "getObjectNodes_body imf propdb i st =
     (case getNode imf i of
        OtherNode kind \<Rightarrow> st \<lparr> logged := logged st @ [''Skipping node type '' @ kind] \<rparr>
      | ObjectNode node \<Rightarrow>
          (let gid = groupKey propdb node in
           if isOpening propdb node
           then st \<lparr> openingNodes := pushNode (openingNodes st) gid i \<rparr>
           else st \<lparr> buildingNodes := pushNode (buildingNodes st) gid i \<rparr>))"

fun getObjectNodes_loop :: "IScene \<Rightarrow> PropDbReader option \<Rightarrow> nat list \<Rightarrow> NodeInfo \<Rightarrow> NodeInfo" where
  "getObjectNodes_loop imf propdb [] st = st"
| "getObjectNodes_loop imf propdb (i # is) st =
     getObjectNodes_loop imf propdb is (getObjectNodes_body imf propdb i st)"

text \<open>\<^verbatim>\<open>Writer.getObjectNodes\<close>: the loop runs \<^verbatim>\<open>i\<close> from 0 below \<^verbatim>\<open>getNodeCount()\<close>.\<close>

definition getObjectNodes :: "IScene \<Rightarrow> PropDbReader option \<Rightarrow> NodeInfo" where
  "getObjectNodes imf propdb =
     getObjectNodes_loop imf propdb [0 ..< getNodeCount imf]
       \<lparr> buildingNodes = [], openingNodes = [], logged = [] \<rparr>"

text \<open>
  What the specification says of the groups, for comparison: the keys in the order in
  which they are first seen, each with the indices that have this key, in scene order.
\<close>

fun firstSeen :: "'a list \<Rightarrow> 'a list" where
  "firstSeen [] = []"
| "firstSeen (k # ks) = k # filter (\<lambda>j. j \<noteq> k) (firstSeen ks)"

definition groupsOf :: "(nat \<Rightarrow> string) \<Rightarrow> nat list \<Rightarrow> ObjectNodes" where
  "groupsOf key is = map (\<lambda>k. (k, filter (\<lambda>i. key i = k) is)) (firstSeen (map key is))"

text \<open>
  The classification and the key of the node at an index, and the indices held by a
  bucket, for stating what \<open>getObjectNodes\<close> returns.
\<close>

definition isObjectAt :: "IScene \<Rightarrow> nat \<Rightarrow> bool" where
  "isObjectAt imf i = (case getNode imf i of ObjectNode node \<Rightarrow> True | OtherNode kind \<Rightarrow> False)"

definition openingAt :: "IScene \<Rightarrow> PropDbReader option \<Rightarrow> nat \<Rightarrow> bool" where
  "openingAt imf propdb i =
     (case getNode imf i of ObjectNode node \<Rightarrow> isOpening propdb node | OtherNode kind \<Rightarrow> False)"

definition keyAt :: "IScene \<Rightarrow> PropDbReader option \<Rightarrow> nat \<Rightarrow> string" where
  "keyAt imf propdb i =
     (case getNode imf i of ObjectNode node \<Rightarrow> groupKey propdb node | OtherNode kind \<Rightarrow> [])"

definition nodesOf :: "ObjectNodes \<Rightarrow> nat set" where
  "nodesOf m = \<Union> (set ` snd ` set m)"

section \<open>Writing a bucket to a file\<close>

subsection \<open>Lines of a mesh\<close>

text \<open>
  The three places where the writer formats numbers. \<open>vertexLine F transform' rootScale
  (x, y, z)\<close> is the line pushed for one vertex: the vector of \<open>x\<close>, \<open>y\<close>, \<open>z\<close>,
  \<^verbatim>\<open>applyMatrix4(transform)\<close>, \<^verbatim>\<open>multiplyScalar(rootScale)\<close>, then
  \<^verbatim>\<open>`v ${myFixed4(pos.x)} ${myFixed4(pos.y)} ${myFixed4(pos.z)}`\<close>.
  \<open>normalLine F transform' (x, y, z)\<close> is the line pushed for one normal: the vector,
  \<^verbatim>\<open>applyMatrix4(rotation)\<close> with \<^verbatim>\<open>rotation = extractRotation(transform)\<close>, then
  \<^verbatim>\<open>`vn ${myFixed2(n.x)} ${myFixed2(n.y)} ${myFixed2(n.z)}`\<close>.
  \<open>numberString F f\<close> is the text of a face index in a template literal.
  A number \<open>None\<close> is \<^verbatim>\<open>undefined\<close>, read from an exhausted iterator (a face index
  of it is NaN); a matrix \<open>None\<close> is one that holds \<^verbatim>\<open>undefined\<close> entries.
\<close>

record numberText =
  vertexLine :: "Matrix4 option \<Rightarrow> real \<Rightarrow> real option \<times> real option \<times> real option \<Rightarrow> string"
  normalLine :: "Matrix4 option \<Rightarrow> real option \<times> real option \<times> real option \<Rightarrow> string"
  numberString :: "real option \<Rightarrow> string"

text \<open>
  \<^verbatim>\<open>it.next().value\<close> of an array iterator: the next element, or \<^verbatim>\<open>undefined\<close> once
  the iterator is exhausted. Advancing the iterator is \<open>drop 1\<close>.
\<close>

definition nextValue :: "'a list \<Rightarrow> 'a option" where
  "nextValue it = (case it of [] \<Rightarrow> None | a # _ \<Rightarrow> Some a)"

text \<open>
  The loops \<^verbatim>\<open>for (let v = 0; v < n; v++)\<close> over an iterator, three values a round;
  \<open>n\<close> is a length divided by 3 and need not be whole.
\<close>

function readTriples :: "nat \<Rightarrow> real \<Rightarrow> 'a list \<Rightarrow> ('a option \<times> 'a option \<times> 'a option) list" where
  "readTriples v n it =
     (if real v < n
      then (nextValue it, nextValue (drop 1 it), nextValue (drop 2 it))
             # readTriples (Suc v) n (drop 3 it)
      else [])"
  by pat_completeness auto
termination
  by (relation "measure (\<lambda>(v, n, it). nat \<lceil>n\<rceil> - v)") (auto, linarith)

declare readTriples.simps [simp del]

definition faceString :: "numberText \<Rightarrow> real option \<Rightarrow> real option \<Rightarrow> real option \<Rightarrow> bool \<Rightarrow> string" where
  "faceString F f0 f1 f2 withNormals =
     (let s0 = numberString F f0; s1 = numberString F f1; s2 = numberString F f2 in
      if withNormals
      then ''f '' @ s0 @ ''//'' @ s0 @ '' '' @ s1 @ ''//'' @ s1 @ '' '' @ s2 @ ''//'' @ s2
      else ''f '' @ s0 @ '' '' @ s1 @ '' '' @ s2)"

text \<open>\<^verbatim>\<open>indexOffset + fIt.next().value\<close>, for the running \<open>offset\<close>\<close>

definition faceIndex :: "real \<Rightarrow> nat option \<Rightarrow> real option" where
  "faceIndex offset value = (case value of None \<Rightarrow> None | Some i \<Rightarrow> Some (offset + real i))"

definition numVertices :: "IMeshGeometry \<Rightarrow> real" where
  "numVertices g = real (length (getVertices g)) / 3"

definition numIndices :: "IMeshGeometry \<Rightarrow> real" where
  "numIndices g = real (length (getIndices g)) / 3"

definition vertexLines :: "numberText \<Rightarrow> Matrix4 option \<Rightarrow> real \<Rightarrow> IMeshGeometry \<Rightarrow> string list" where
  "vertexLines F transform' rootScale g =
     map (vertexLine F transform' rootScale) (readTriples 0 (numVertices g) (getVertices g))"

definition writingNormals :: "IWriterOptions \<Rightarrow> IMeshGeometry \<Rightarrow> bool" where
  "writingNormals options g = (\<not> skipNormals options \<and> getNormals g \<noteq> None)"

definition normalLines :: "numberText \<Rightarrow> IWriterOptions \<Rightarrow> Matrix4 option \<Rightarrow> IMeshGeometry \<Rightarrow> string list" where
  "normalLines F options transform' g =
     (if \<not> skipNormals options
      then (case getNormals g of
              None \<Rightarrow> []
            | Some normals \<Rightarrow>
                map (normalLine F transform') (readTriples 0 (real (length normals) / 3) normals))
      else [])"

definition faceLines :: "numberText \<Rightarrow> IWriterOptions \<Rightarrow> real \<Rightarrow> IMeshGeometry \<Rightarrow> string list" where
  "faceLines F options offset g =
     map (\<lambda>(a, b, c). faceString F (faceIndex offset a) (faceIndex offset b)
                          (faceIndex offset c) (writingNormals options g))
       (readTriples 0 (numIndices g) (getIndices g))"

text \<open>All lines that the body of \<^verbatim>\<open>nodes.forEach\<close> pushes for a mesh, in the order pushed.\<close>

definition meshLines ::
  "numberText \<Rightarrow> IWriterOptions \<Rightarrow> Matrix4 option \<Rightarrow> real \<Rightarrow> real \<Rightarrow> IMeshGeometry \<Rightarrow> string list" where
  "meshLines F options transform' rootScale offset g =
     vertexLines F transform' rootScale g @ normalLines F options transform' g
       @ faceLines F options offset g"

subsection \<open>The loop over the groups\<close>

text \<open>
  The state of \<^verbatim>\<open>Writer.writeObjects\<close>: the buffered lines (\<^verbatim>\<open>output\<close> in the
  source), the running \<^verbatim>\<open>indexOffset\<close>, and the content of the file at
  \<^verbatim>\<open>outputPath\<close>. An exception is
  a value that carries the state in which it was thrown.
\<close>

record writerState =
  outputBuffer :: "string list"
  indexOffset :: real
  outputFile :: string

datatype jsError = Error string

type_synonym 'a thrown = "jsError \<times> 'a"

text \<open>
  The flush threshold is 50000 in the source. The loop takes it as a parameter so that
  runs with different thresholds can be compared; \<open>None\<close> is a run that never flushes
  before the end.
\<close>

definition flushThreshold :: nat where
  "flushThreshold = 50000"

definition flush :: "writerState \<Rightarrow> writerState" where
  "flush st = st \<lparr> outputFile := outputFile st @ join (outputBuffer st) @ [newline], outputBuffer := [] \<rparr>"

definition checkFlush :: "nat option \<Rightarrow> writerState \<Rightarrow> writerState" where
  "checkFlush threshold st =
     (case threshold of
        None \<Rightarrow> st
      | Some t \<Rightarrow> if length (outputBuffer st) > t then flush st else st)"

text \<open>The body of \<^verbatim>\<open>nodes.forEach(nodeId => ...)\<close>.\<close>

definition writeNode ::
  "numberText \<Rightarrow> IWriterOptions \<Rightarrow> nat option \<Rightarrow> IScene \<Rightarrow> real \<Rightarrow> writerState \<Rightarrow> nat
   \<Rightarrow> writerState thrown + writerState" where
  "writeNode F options threshold scene rootScale st nodeId =
     (case getNode scene nodeId of
        OtherNode kind \<Rightarrow>
          Inl (Error (''Node kind '' @ kind @ '' should have been excluded''), st)
      | ObjectNode node \<Rightarrow>
          (case getGeometry scene (geometry node) of
             Mesh g \<Rightarrow>
               (let transform' = nodeTransform node;
                    st1 = st \<lparr> outputBuffer := outputBuffer st
                                  @ meshLines F options transform' rootScale (indexOffset st) g \<rparr>;
                    st2 = st1 \<lparr> indexOffset := indexOffset st1 + numVertices g \<rparr>
                in Inr (checkFlush threshold st2))
           | OtherGeometry kind \<Rightarrow> Inr st))"

fun writeNodes ::
  "numberText \<Rightarrow> IWriterOptions \<Rightarrow> nat option \<Rightarrow> IScene \<Rightarrow> real \<Rightarrow> writerState \<Rightarrow> nat list
   \<Rightarrow> writerState thrown + writerState" where
  "writeNodes F options threshold scene rootScale st [] = Inr st"
| "writeNodes F options threshold scene rootScale st (nodeId # nodes) =
     (case writeNode F options threshold scene rootScale st nodeId of
        Inl e \<Rightarrow> Inl e
      | Inr st' \<Rightarrow> writeNodes F options threshold scene rootScale st' nodes)"

text \<open>\<^verbatim>\<open>objectNodes.forEach((nodes, id) => ...)\<close>: the header line, then the nodes.\<close>

fun writeGroups ::
  "numberText \<Rightarrow> IWriterOptions \<Rightarrow> nat option \<Rightarrow> IScene \<Rightarrow> real \<Rightarrow> writerState \<Rightarrow> ObjectNodes
   \<Rightarrow> writerState thrown + writerState" where
  "writeGroups F options threshold scene rootScale st [] = Inr st"
| "writeGroups F options threshold scene rootScale st ((gid, nodes) # groups) =
     (case writeNodes F options threshold scene rootScale
             (st \<lparr> outputBuffer := outputBuffer st @ [''o '' @ gid] \<rparr>) nodes of
        Inl e \<Rightarrow> Inl e
      | Inr st' \<Rightarrow> writeGroups F options threshold scene rootScale st' groups)"

text \<open>
  The files of the output directory, by path. \<^verbatim>\<open>fse.writeFileSync(outputPath, "")\<close>
  empties the file first; the last \<^verbatim>\<open>fse.appendFileSync\<close> has no trailing newline.
\<close>

type_synonym files = "string \<rightharpoonup> string"

definition writeObjectsWith ::
  "nat option \<Rightarrow> numberText \<Rightarrow> IWriterOptions \<Rightarrow> ObjectNodes \<Rightarrow> string \<Rightarrow> IScene \<Rightarrow> real \<Rightarrow> files
   \<Rightarrow> files thrown + files" where
  "writeObjectsWith threshold F options objectNodes outputPath scene rootScale fs =
     (case writeGroups F options threshold scene rootScale
             \<lparr> outputBuffer = [], indexOffset = 1, outputFile = [] \<rparr> objectNodes of
        Inl (e, st) \<Rightarrow> Inl (e, fs(outputPath \<mapsto> outputFile st))
      | Inr st \<Rightarrow> Inr (fs(outputPath \<mapsto> outputFile st @ join (outputBuffer st))))"

text \<open>\<^verbatim>\<open>Writer.writeObjects\<close>\<close>

definition writeObjects ::
  "numberText \<Rightarrow> IWriterOptions \<Rightarrow> ObjectNodes \<Rightarrow> string \<Rightarrow> IScene \<Rightarrow> real \<Rightarrow> files
   \<Rightarrow> files thrown + files" where
  "writeObjects = writeObjectsWith (Some flushThreshold)"

text \<open>The same with no flush before the end: one write of all lines.\<close>

definition writeObjectsUnbounded ::
  "numberText \<Rightarrow> IWriterOptions \<Rightarrow> ObjectNodes \<Rightarrow> string \<Rightarrow> IScene \<Rightarrow> real \<Rightarrow> files
   \<Rightarrow> files thrown + files" where
  "writeObjectsUnbounded = writeObjectsWith None"

subsection \<open>What a run writes, for comparison\<close>

text \<open>The text of lines that are each ended by a newline: what flushes leave in the file.\<close>

definition flushedText :: "string list \<Rightarrow> string" where
  "flushedText ls = concat (map (\<lambda>l. l @ [newline]) ls)"



text \<open>
  The same with what the claims say of the flushes: the lines flushed so far are the
  first lines that the run without flushes buffers, the file holds them each ended by
  a newline, the buffer holds the others, and lines are flushed only once there are
  more of them than the threshold.
\<close>

definition flushedLines :: "writerState \<Rightarrow> writerState \<Rightarrow> string list" where
  "flushedLines st su =
     take (length (outputBuffer su) - length (outputBuffer st)) (outputBuffer su)"

definition inStep :: "nat \<Rightarrow> writerState \<Rightarrow> writerState \<Rightarrow> bool" where
  "inStep T st su \<longleftrightarrow>
     indexOffset st = indexOffset su \<and> outputFile su = []
     \<and> outputFile st = flushedText (flushedLines st su)
     \<and> outputBuffer su = flushedLines st su @ outputBuffer st
     \<and> (flushedLines st su = [] \<or> T < length (flushedLines st su))"

definition inStepOutcome ::
  "nat \<Rightarrow> writerState thrown + writerState \<Rightarrow> writerState thrown + writerState \<Rightarrow> bool" where
  "inStepOutcome T rt ru =
     (case ru of
        Inl (e, su) \<Rightarrow> (\<exists>st. rt = Inl (e, st) \<and> inStep T st su)
      | Inr su \<Rightarrow> (\<exists>st. rt = Inr st \<and> inStep T st su))"

text \<open>
  The running vertex offset as the specification describes it: 1 at the start of a
  file, plus the vertex counts of the meshes of all nodes written earlier to this
  file, whatever their groups.
\<close>

definition meshAt :: "IScene \<Rightarrow> nat \<Rightarrow> (IObjectNode \<times> IMeshGeometry) option" where
  "meshAt scene nodeId =
     (case getNode scene nodeId of
        OtherNode kind \<Rightarrow> None
      | ObjectNode node \<Rightarrow>
          (case getGeometry scene (geometry node) of
             Mesh g \<Rightarrow> Some (node, g)
           | OtherGeometry kind \<Rightarrow> None))"

definition vertexCountAt :: "IScene \<Rightarrow> nat \<Rightarrow> real" where
  "vertexCountAt scene nodeId =
     (case meshAt scene nodeId of None \<Rightarrow> 0 | Some (node, g) \<Rightarrow> numVertices g)"

definition offsetAfter :: "IScene \<Rightarrow> nat list \<Rightarrow> real" where
  "offsetAfter scene earlier = 1 + sum_list (map (vertexCountAt scene) earlier)"

text \<open>
  The lines of a bucket with these offsets: for each group its header line, then for
  each node with a mesh the lines of the mesh, the face indices counted from the
  offset after all earlier nodes of the bucket.
\<close>

definition nodeLinesAt ::
  "numberText \<Rightarrow> IWriterOptions \<Rightarrow> IScene \<Rightarrow> real \<Rightarrow> real \<Rightarrow> nat \<Rightarrow> string list" where
  "nodeLinesAt F options scene rootScale offset nodeId =
     (case meshAt scene nodeId of
        None \<Rightarrow> []
      | Some (node, g) \<Rightarrow> meshLines F options (nodeTransform node) rootScale offset g)"

fun nodesLines ::
  "numberText \<Rightarrow> IWriterOptions \<Rightarrow> IScene \<Rightarrow> real \<Rightarrow> nat list \<Rightarrow> nat list \<Rightarrow> string list" where
  "nodesLines F options scene rootScale earlier [] = []"
| "nodesLines F options scene rootScale earlier (nodeId # nodes) =
     nodeLinesAt F options scene rootScale (offsetAfter scene earlier) nodeId
       @ nodesLines F options scene rootScale (earlier @ [nodeId]) nodes"

fun groupsLines ::
  "numberText \<Rightarrow> IWriterOptions \<Rightarrow> IScene \<Rightarrow> real \<Rightarrow> nat list \<Rightarrow> ObjectNodes \<Rightarrow> string list" where
  "groupsLines F options scene rootScale earlier [] = []"
| "groupsLines F options scene rootScale earlier ((gid, nodes) # groups) =
     (''o '' @ gid) # nodesLines F options scene rootScale earlier nodes
       @ groupsLines F options scene rootScale (earlier @ nodes) groups"





section \<open>Writing a scene\<close>

text \<open>
  \<^verbatim>\<open>Writer.write\<close>. \<^verbatim>\<open>path.join(outputDir, name)\<close> is taken for a directory path
  with no trailing separator. The result holds the files and the messages passed
  to \<^verbatim>\<open>options.log\<close>.
\<close>

definition path_join :: "string \<Rightarrow> string \<Rightarrow> string" where
  "path_join dir name = dir @ ''/'' @ name"

definition Writer_write ::
  "numberText \<Rightarrow> IWriterOptions \<Rightarrow> IScene \<Rightarrow> string \<Rightarrow> PropDbReader option \<Rightarrow> files
   \<Rightarrow> (files \<times> string list) thrown + (files \<times> string list)" where
  "Writer_write F options imf outputDir propdb fs =
     (let objPath = path_join outputDir ''output.obj'';
          openingObjPath = path_join outputDir ''openings.obj'';
          rootScale = getRootScale imf;
          nodeInfo = getObjectNodes imf propdb
      in case writeObjects F options (buildingNodes nodeInfo) objPath imf rootScale fs of
           Inl (e, fs1) \<Rightarrow> Inl (e, fs1, logged nodeInfo)
         | Inr fs1 \<Rightarrow>
             (case writeObjects F options (openingNodes nodeInfo) openingObjPath imf rootScale fs1 of
                Inl (e, fs2) \<Rightarrow> Inl (e, fs2, logged nodeInfo)
              | Inr fs2 \<Rightarrow> Inr (fs2, logged nodeInfo @ [''Finished writing OBJ''])))"

section \<open>Exact arithmetic as number text\<close>

text \<open>
  One \<open>numberText\<close>, for running the writer on examples: the arithmetic of three.js
  over the real numbers. It is the text of the source where every result of the
  source's arithmetic is exactly a double (no rounding error before
  \<^verbatim>\<open>Math.round\<close>), no number reaches 1e21 in magnitude, no zero is negative, face
  indices are whole numbers, and a matrix that holds \<^verbatim>\<open>undefined\<close> is used for vertices
  only. A quotient by zero is an infinity or NaN, as in the source.
\<close>

datatype jsNumber = Finite real | PosInfinity | NegInfinity | NaN

text \<open>The product of a number with a finite number, and \<^verbatim>\<open>1 / d\<close>.\<close>

fun timesFinite :: "jsNumber \<Rightarrow> real \<Rightarrow> jsNumber" where
  "timesFinite (Finite a) r = Finite (a * r)"
| "timesFinite PosInfinity r = (if 0 < r then PosInfinity else if r < 0 then NegInfinity else NaN)"
| "timesFinite NegInfinity r = (if 0 < r then NegInfinity else if r < 0 then PosInfinity else NaN)"
| "timesFinite NaN r = NaN"

definition reciprocal :: "real \<Rightarrow> jsNumber" where
  "reciprocal d = (if d = 0 then PosInfinity else Finite (1 / d))"

definition Math_round :: "real \<Rightarrow> int" where
  "Math_round x = \<lfloor>x + 1 / 2\<rfloor>"

fun myFixed4 :: "jsNumber \<Rightarrow> jsNumber" where
  "myFixed4 (Finite x) = Finite (real_of_int (Math_round (x * 10000)) / 10000)"
| "myFixed4 n = n"

fun myFixed2 :: "jsNumber \<Rightarrow> jsNumber" where
  "myFixed2 (Finite x) = Finite (real_of_int (Math_round (x * 100)) / 100)"
| "myFixed2 n = n"

text \<open>\<^verbatim>\<open>`${x}`\<close>, for a finite number with at most four decimals.\<close>

definition decimalString :: "real \<Rightarrow> string" where
  "decimalString x =
     (let k = \<lfloor>x * 10000\<rfloor>;
          a = nat \<bar>k\<bar>;
          fp = a mod 10000;
          ds = [digit (fp div 1000), digit (fp div 100 mod 10), digit (fp div 10 mod 10),
                digit (fp mod 10)]
      in (if k < 0 then ''-'' else []) @ natText (a div 10000)
           @ (if fp = 0 then [] else CHR ''.'' # rev (dropWhile (\<lambda>c. c = CHR ''0'') (rev ds))))"

fun numberToString :: "jsNumber \<Rightarrow> string" where
  "numberToString (Finite x) = decimalString x"
| "numberToString PosInfinity = ''Infinity''"
| "numberToString NegInfinity = ''-Infinity''"
| "numberToString NaN = ''NaN''"

text \<open>
  \<^verbatim>\<open>new THREE.Vector3(x, y, z)\<close> takes 0 for an argument that is \<^verbatim>\<open>undefined\<close>.
  \<^verbatim>\<open>Vector3.applyMatrix4\<close> divides by \<^verbatim>\<open>w\<close>; \<^verbatim>\<open>Vector3.multiplyScalar\<close>.
\<close>

definition vector3 :: "real option \<times> real option \<times> real option \<Rightarrow> Vector3" where
  "vector3 v =
     (case v of (x, y, z) \<Rightarrow>
        Vector3 (case x of None \<Rightarrow> 0 | Some a \<Rightarrow> a) (case y of None \<Rightarrow> 0 | Some a \<Rightarrow> a)
          (case z of None \<Rightarrow> 0 | Some a \<Rightarrow> a))"

fun applyMatrix4 :: "Vector3 \<Rightarrow> Matrix4 \<Rightarrow> jsNumber \<times> jsNumber \<times> jsNumber" where
  "applyMatrix4 (Vector3 x y z) e =
     (let w = reciprocal (te3 e * x + te7 e * y + te11 e * z + te15 e)
      in (timesFinite w (te0 e * x + te4 e * y + te8 e * z + te12 e),
          timesFinite w (te1 e * x + te5 e * y + te9 e * z + te13 e),
          timesFinite w (te2 e * x + te6 e * y + te10 e * z + te14 e)))"

fun multiplyScalar :: "jsNumber \<times> jsNumber \<times> jsNumber \<Rightarrow> real \<Rightarrow> jsNumber \<times> jsNumber \<times> jsNumber" where
  "multiplyScalar (x, y, z) s = (timesFinite x s, timesFinite y s, timesFinite z s)"

text \<open>
  \<^verbatim>\<open>Matrix4.extractRotation\<close> divides each of the first three columns by its length.
  A column of length 0 becomes NaN, and with it every coordinate of a normal.
\<close>

definition columnLengths :: "Matrix4 \<Rightarrow> real \<times> real \<times> real" where
  "columnLengths m =
     (sqrt (te0 m * te0 m + te1 m * te1 m + te2 m * te2 m),
      sqrt (te4 m * te4 m + te5 m * te5 m + te6 m * te6 m),
      sqrt (te8 m * te8 m + te9 m * te9 m + te10 m * te10 m))"

definition extractRotation :: "Matrix4 \<Rightarrow> Matrix4" where
  "extractRotation m =
     (case columnLengths m of (lx, ly, lz) \<Rightarrow>
        let scaleX = 1 / lx; scaleY = 1 / ly; scaleZ = 1 / lz
        in \<lparr> te0 = te0 m * scaleX, te1 = te1 m * scaleX, te2 = te2 m * scaleX, te3 = 0,
             te4 = te4 m * scaleY, te5 = te5 m * scaleY, te6 = te6 m * scaleY, te7 = 0,
             te8 = te8 m * scaleZ, te9 = te9 m * scaleZ, te10 = te10 m * scaleZ, te11 = 0,
             te12 = 0, te13 = 0, te14 = 0, te15 = 1 \<rparr>)"

text \<open>
  The vertex line. A matrix that holds \<^verbatim>\<open>undefined\<close> comes from fewer than sixteen
  elements, so its last entry \<open>te15\<close> is \<^verbatim>\<open>undefined\<close>, \<^verbatim>\<open>w\<close> is NaN and so is every
  coordinate.
\<close>

fun exactVertexLine :: "Matrix4 option \<Rightarrow> real \<Rightarrow> real option \<times> real option \<times> real option \<Rightarrow> string" where
  "exactVertexLine (Some m) rootScale v =
     (case multiplyScalar (applyMatrix4 (vector3 v) m) rootScale of
        (px, py, pz) \<Rightarrow>
          ''v '' @ numberToString (myFixed4 px) @ '' '' @ numberToString (myFixed4 py)
            @ '' '' @ numberToString (myFixed4 pz))"
| "exactVertexLine None rootScale v = ''v NaN NaN NaN''"

fun exactNormalLine :: "Matrix4 option \<Rightarrow> real option \<times> real option \<times> real option \<Rightarrow> string" where
  "exactNormalLine (Some m) v =
     (case columnLengths m of (lx, ly, lz) \<Rightarrow>
        if lx = 0 \<or> ly = 0 \<or> lz = 0 then ''vn NaN NaN NaN''
        else (case applyMatrix4 (vector3 v) (extractRotation m) of
                (px, py, pz) \<Rightarrow>
                  ''vn '' @ numberToString (myFixed2 px) @ '' '' @ numberToString (myFixed2 py)
                    @ '' '' @ numberToString (myFixed2 pz)))"
| "exactNormalLine None v = ''vn NaN NaN NaN''"

fun exactNumberString :: "real option \<Rightarrow> string" where
  "exactNumberString (Some f) = decimalString f"
| "exactNumberString None = ''NaN''"

definition exactText :: numberText where
  "exactText = \<lparr> vertexLine = exactVertexLine, normalLine = exactNormalLine,
                  numberString = exactNumberString \<rparr>"

section \<open>Example scenes\<close>

text \<open>
  One object node with \<open>dbid\<close> 7, no transform and a mesh of a single triangle
  without normals; the metadata gives the unit \<open>m\<close>.
\<close>

definition triangle :: IMeshGeometry where
  "triangle = \<lparr> getIndices = [0, 1, 2], getVertices = [0, 0, 0, 1, 0, 0, 0, 1, 0],
                 getNormals = None \<rparr>"

definition sceneOf :: "INode list \<Rightarrow> IGeometry list \<Rightarrow> IScene" where
  "sceneOf nodes geometries =
     \<lparr> getMetadata = [''distance unit'' \<mapsto> ''m''],
       getNodeCount = length nodes,
       getNode = (\<lambda>i. if i < length nodes then nodes ! i else OtherNode ''undefined''),
       getGeometry = (\<lambda>g. if g < length geometries then geometries ! g
                           else OtherGeometry ''undefined'') \<rparr>"

definition triangleScene :: IScene where
  "triangleScene =
     sceneOf [ObjectNode \<lparr> dbid = 7, geometry = 0, transform = None \<rparr>] [Mesh triangle]"




text \<open>The same node with a geometry of another kind than a mesh (kind 1, lines).\<close>

definition linesScene :: IScene where
  "linesScene =
     sceneOf [ObjectNode \<lparr> dbid = 7, geometry = 0, transform = None \<rparr>] [OtherGeometry ''1'']"

text \<open>The same node with a mesh of 50000 vertices at the origin and no triangle.\<close>

definition cloud :: IMeshGeometry where
  "cloud = \<lparr> getIndices = [], getVertices = replicate 150000 0, getNormals = None \<rparr>"

definition cloudScene :: IScene where
  "cloudScene =
     sceneOf [ObjectNode \<lparr> dbid = 7, geometry = 0, transform = None \<rparr>] [Mesh cloud]"



text \<open>
  A scene of a group node and three object nodes, with a property database in which
  the objects 10 and 11 have the same \<open>IFC:GLOBALID\<close> and the object 12 is an opening
  without an identifier.
\<close>

definition houseScene :: IScene where
  "houseScene =
     sceneOf [OtherNode ''0'',
              ObjectNode \<lparr> dbid = 10, geometry = 0, transform = None \<rparr>,
              ObjectNode \<lparr> dbid = 12, geometry = 0, transform = None \<rparr>,
              ObjectNode \<lparr> dbid = 11, geometry = 0, transform = None \<rparr>]
             [Mesh triangle]"

definition houseDb :: PropDbReader where
  "houseDb =
     \<lparr> getProperties =
         (\<lambda>d. if d = 12 then [''Element:IfcExportAs'' \<mapsto> ''IfcOpeningElement'']
              else [''Element:IfcExportAs'' \<mapsto> ''IfcWall'']),
       findPropertyRecursive =
         (\<lambda>d keys. if (d = 10 \<or> d = 11) \<and> ''IFC:GLOBALID'' \<in> set keys then Some ''2O2Fr$t4X7Zf8NOew3FLOH''
                   else None) \<rparr>"

section \<open>Properties of the transform\<close>

text \<open>
  With sixteen elements, the matrix branch stores elements 0 to 3 in \<open>te0\<close>, \<open>te4\<close>,
  \<open>te8\<close>, \<open>te12\<close>, which is row 0 of the matrix, and likewise the next three rows.
\<close>

lemma nodeTransform_matrix_rows:
  assumes "length m = 16"
  shows "nodeTransform (node\<lparr>transform := Some (MatrixTransform m)\<rparr>) =
     Some \<lparr> te0 = m ! 0, te1 = m ! 4, te2 = m ! 8, te3 = m ! 12,
            te4 = m ! 1, te5 = m ! 5, te6 = m ! 9, te7 = m ! 13,
            te8 = m ! 2, te9 = m ! 6, te10 = m ! 10, te11 = m ! 14,
            te12 = m ! 3, te13 = m ! 7, te14 = m ! 11, te15 = m ! 15 \<rparr>"
  using assms by (simp add: nodeTransform_def Matrix4_set_def)

text \<open>
  C2 (elements 0 to 3 of a matrix transform become column 0 of the world matrix, and so
  on, in the column-major convention of the scene format). The code passes the elements
  to \<^verbatim>\<open>Matrix4.set\<close>, which takes its arguments row by row: the column-major
  translation by (5, 6, 7) ends in \<open>te3\<close>, \<open>te7\<close>, \<open>te11\<close>, the bottom row, and
  \<open>te12\<close>, \<open>te13\<close>, \<open>te14\<close> stay 0, while the decomposed branch of the same
  function puts the same translation in \<open>te12\<close>, \<open>te13\<close>, \<open>te14\<close>.
\<close>

theorem nodeTransform_matrix_transposed:
  "nodeTransform \<lparr> dbid = 1, geometry = 0,
       transform = Some (MatrixTransform [1, 0, 0, 0,  0, 1, 0, 0,  0, 0, 1, 0,  5, 6, 7, 1]) \<rparr> =
     Some \<lparr> te0 = 1, te1 = 0, te2 = 0, te3 = 5,
            te4 = 0, te5 = 1, te6 = 0, te7 = 6,
            te8 = 0, te9 = 0, te10 = 1, te11 = 7,
            te12 = 0, te13 = 0, te14 = 0, te15 = 1 \<rparr>
   \<and> nodeTransform \<lparr> dbid = 1, geometry = 0,
       transform = Some (DecomposedTransform (Some (Vector3 5 6 7)) None None) \<rparr> =
     Some \<lparr> te0 = 1, te1 = 0, te2 = 0, te3 = 0,
            te4 = 0, te5 = 1, te6 = 0, te7 = 0,
            te8 = 0, te9 = 0, te10 = 1, te11 = 0,
            te12 = 5, te13 = 6, te14 = 7, te15 = 1 \<rparr>"
  by (simp add: nodeTransform_def Matrix4_set_def identity_def setPosition_def)

lemma Matrix4_scale_product:
  "te3 m = 0 \<Longrightarrow> te7 m = 0 \<Longrightarrow> te11 m = 0 \<Longrightarrow> te12 m = 0 \<Longrightarrow> te13 m = 0 \<Longrightarrow> te14 m = 0 \<Longrightarrow>
   te15 m = 1 \<Longrightarrow> Matrix4_scale m v = multiplyMatrices m (makeScale v)"
  by (cases v) (simp add: multiplyMatrices_def Matrix4_set_def)

lemma setPosition_product:
  "te3 m = 0 \<Longrightarrow> te7 m = 0 \<Longrightarrow> te11 m = 0 \<Longrightarrow> te12 m = 0 \<Longrightarrow> te13 m = 0 \<Longrightarrow> te14 m = 0 \<Longrightarrow>
   te15 m = 1 \<Longrightarrow> setPosition m x y z = multiplyMatrices (makeTranslation (Vector3 x y z)) m"
  by (simp add: multiplyMatrices_def Matrix4_set_def setPosition_def)

lemma multiply_identity_right: "multiplyMatrices m identity = m"
  by (cases m) (simp add: multiplyMatrices_def Matrix4_set_def identity_def)

lemma multiply_identity_left: "multiplyMatrices identity m = m"
  by (cases m) (simp add: multiplyMatrices_def Matrix4_set_def identity_def)

lemma makeScale_ones: "makeScale (Vector3 1 1 1) = identity"
  by (simp add: identity_def)

lemma makeTranslation_zero: "makeTranslation (Vector3 0 0 0) = identity"
  by (simp add: identity_def)

lemma makeRotation_identity: "makeRotationFromQuaternion (Quaternion 0 0 0 1) = identity"
  by (simp add: makeRotationFromQuaternion_def identity_def Matrix4_set_def)

lemma rotation_affine:
  "te3 (makeRotationFromQuaternion q) = 0" "te7 (makeRotationFromQuaternion q) = 0"
  "te11 (makeRotationFromQuaternion q) = 0" "te12 (makeRotationFromQuaternion q) = 0"
  "te13 (makeRotationFromQuaternion q) = 0" "te14 (makeRotationFromQuaternion q) = 0"
  "te15 (makeRotationFromQuaternion q) = 1"
  by (cases q, simp add: makeRotationFromQuaternion_def Let_def)+

lemma rotation_scale_affine:
  "te3 (multiplyMatrices (makeRotationFromQuaternion q) (makeScale v)) = 0"
  "te7 (multiplyMatrices (makeRotationFromQuaternion q) (makeScale v)) = 0"
  "te11 (multiplyMatrices (makeRotationFromQuaternion q) (makeScale v)) = 0"
  "te12 (multiplyMatrices (makeRotationFromQuaternion q) (makeScale v)) = 0"
  "te13 (multiplyMatrices (makeRotationFromQuaternion q) (makeScale v)) = 0"
  "te14 (multiplyMatrices (makeRotationFromQuaternion q) (makeScale v)) = 0"
  "te15 (multiplyMatrices (makeRotationFromQuaternion q) (makeScale v)) = 1"
  by (cases v, simp add: multiplyMatrices_def Matrix4_set_def rotation_affine)+


lemma decomposed_product:
  "nodeTransform (node\<lparr>transform := Some (DecomposedTransform t r s)\<rparr>) =
     Some (multiplyMatrices
            (makeTranslation (case t of None \<Rightarrow> Vector3 0 0 0 | Some v \<Rightarrow> v))
            (multiplyMatrices
              (makeRotationFromQuaternion (case r of None \<Rightarrow> Quaternion 0 0 0 1 | Some q \<Rightarrow> q))
              (makeScale (case s of None \<Rightarrow> Vector3 1 1 1 | Some v \<Rightarrow> v))))"
proof -
  define q where "q = (case r of None \<Rightarrow> Quaternion 0 0 0 1 | Some q \<Rightarrow> q)"
  define sv where "sv = (case s of None \<Rightarrow> Vector3 1 1 1 | Some v \<Rightarrow> v)"
  define tv where "tv = (case t of None \<Rightarrow> Vector3 0 0 0 | Some v \<Rightarrow> v)"
  define RS where "RS = multiplyMatrices (makeRotationFromQuaternion q) (makeScale sv)"
  have m1: "(case r of None \<Rightarrow> identity | Some q \<Rightarrow> makeRotationFromQuaternion q) =
      makeRotationFromQuaternion q"
    by (cases r) (simp_all add: q_def makeRotation_identity)
  have m2: "(case s of None \<Rightarrow> makeRotationFromQuaternion q
             | Some v \<Rightarrow> Matrix4_scale (makeRotationFromQuaternion q) v) = RS"
    by (cases s)
       (simp_all add: RS_def sv_def multiply_identity_right
          Matrix4_scale_product rotation_affine flip: identity_def)
  have m3: "(case t of None \<Rightarrow> RS | Some (Vector3 x y z) \<Rightarrow> setPosition RS x y z) =
      multiplyMatrices (makeTranslation tv) RS"
  proof (cases t)
    case None
    then show ?thesis by (simp add: tv_def multiply_identity_left flip: identity_def)
  next
    case (Some v)
    obtain x y z where v: "v = Vector3 x y z" by (cases v)
    show ?thesis
      by (simp add: Some v tv_def RS_def setPosition_product rotation_scale_affine)
  qed
  have "nodeTransform (node\<lparr>transform := Some (DecomposedTransform t r s)\<rparr>) =
      Some (case t of
              None \<Rightarrow>
                (case s of
                   None \<Rightarrow> (case r of None \<Rightarrow> identity | Some q \<Rightarrow> makeRotationFromQuaternion q)
                 | Some v \<Rightarrow>
                     Matrix4_scale
                       (case r of None \<Rightarrow> identity | Some q \<Rightarrow> makeRotationFromQuaternion q) v)
            | Some (Vector3 x y z) \<Rightarrow>
                setPosition
                  (case s of
                     None \<Rightarrow> (case r of None \<Rightarrow> identity | Some q \<Rightarrow> makeRotationFromQuaternion q)
                   | Some v \<Rightarrow>
                       Matrix4_scale
                         (case r of None \<Rightarrow> identity | Some q \<Rightarrow> makeRotationFromQuaternion q) v)
                  x y z)"
    unfolding nodeTransform_def by (simp add: Let_def)
  then have "nodeTransform (node\<lparr>transform := Some (DecomposedTransform t r s)\<rparr>) =
      Some (multiplyMatrices (makeTranslation tv) RS)"
    unfolding m1 unfolding m2 unfolding m3 .
  then show ?thesis
    unfolding RS_def q_def sv_def tv_def .
qed

text \<open>
  C3 (a decomposed transform gives the product of the translation, the rotation and the
  scale matrices, \<open>T * R * S\<close>, an absent component counting as the identity; with
  identity rotation and scale the result is the translation matrix itself; a node
  without a transform gives the identity matrix).
\<close>

theorem nodeTransform_decomposed:
  "nodeTransform (node\<lparr>transform := Some (DecomposedTransform t r s)\<rparr>) =
     Some (multiplyMatrices
            (makeTranslation (case t of None \<Rightarrow> Vector3 0 0 0 | Some v \<Rightarrow> v))
            (multiplyMatrices
              (makeRotationFromQuaternion (case r of None \<Rightarrow> Quaternion 0 0 0 1 | Some q \<Rightarrow> q))
              (makeScale (case s of None \<Rightarrow> Vector3 1 1 1 | Some v \<Rightarrow> v))))
   \<and> nodeTransform (node\<lparr>transform := Some (DecomposedTransform t
          (if rAbsent then None else Some (Quaternion 0 0 0 1))
          (if sAbsent then None else Some (Vector3 1 1 1)))\<rparr>) =
     Some (makeTranslation (case t of None \<Rightarrow> Vector3 0 0 0 | Some v \<Rightarrow> v))
   \<and> nodeTransform (node\<lparr>transform := None\<rparr>) = Some identity"
proof (intro conjI)
  show "nodeTransform (node\<lparr>transform := Some (DecomposedTransform t
          (if rAbsent then None else Some (Quaternion 0 0 0 1))
          (if sAbsent then None else Some (Vector3 1 1 1)))\<rparr>) =
     Some (makeTranslation (case t of None \<Rightarrow> Vector3 0 0 0 | Some v \<Rightarrow> v))"
    unfolding decomposed_product
    by (simp add: makeRotation_identity multiply_identity_right flip: identity_def)
  show "nodeTransform (node\<lparr>transform := None\<rparr>) = Some identity"
    by (simp add: nodeTransform_def)
qed (rule decomposed_product)

section \<open>Properties of the unit scale\<close>

text \<open>
  C4 (the scale is 0.01 for the unit centimeter or cm, 0.001 for millimeter or mm,
  0.3048 for foot or ft, 0.0254 for inch or in, and 1.0 for any other value and for
  an absent key; the function is total, so nothing is raised).
\<close>

theorem getRootScale_table:
  "getRootScale imf =
     (if getMetadata imf ''distance unit'' = Some ''centimeter''
         \<or> getMetadata imf ''distance unit'' = Some ''cm''
      then 0.01
      else if getMetadata imf ''distance unit'' = Some ''millimeter''
         \<or> getMetadata imf ''distance unit'' = Some ''mm''
      then 0.001
      else if getMetadata imf ''distance unit'' = Some ''foot''
         \<or> getMetadata imf ''distance unit'' = Some ''ft''
      then 0.3048
      else if getMetadata imf ''distance unit'' = Some ''inch''
         \<or> getMetadata imf ''distance unit'' = Some ''in''
      then 0.0254
      else 1.0)"
  by (cases "getMetadata imf ''distance unit''") (auto simp: getRootScale_def)

section \<open>Properties of the classification and grouping\<close>

text \<open>
  Pushing an index into a bucket is adding it at the end of the indices of its key;
  so each bucket of \<open>getObjectNodes\<close> is \<open>groupsOf\<close> of the indices it selects.
\<close>

lemma set_firstSeen [simp]: "set (firstSeen ks) = set ks"
  by (induction ks) auto

lemma distinct_firstSeen [simp]: "distinct (firstSeen ks)"
  by (induction ks) auto

lemma firstSeen_snoc:
  "firstSeen (ks @ [k]) = (if k \<in> set ks then firstSeen ks else firstSeen ks @ [k])"
  by (induction ks) auto

lemma pushNode_map:
  "distinct ks \<Longrightarrow>
   pushNode (map (\<lambda>k. (k, f k)) ks) g i =
     (if g \<in> set ks then map (\<lambda>k. (k, if k = g then f k @ [i] else f k)) ks
      else map (\<lambda>k. (k, f k)) ks @ [(g, [i])])"
  by (induction ks) auto

lemma groupsOf_snoc: "groupsOf key (is @ [i]) = pushNode (groupsOf key is) (key i) i"
proof (cases "key i \<in> key ` set is")
  case True
  then show ?thesis
    by (simp add: groupsOf_def firstSeen_snoc pushNode_map)
next
  case False
  then have "filter (\<lambda>j. key j = key i) is = []"
    by (force simp: filter_empty_conv image_iff)
  with False show ?thesis
    by (auto simp: groupsOf_def firstSeen_snoc pushNode_map)
qed

lemma groupsOf_Nil [simp]: "groupsOf key [] = []"
  by (simp add: groupsOf_def)

lemma distinct_groupsOf: "distinct (map fst (groupsOf key is))"
  by (simp add: groupsOf_def comp_def)

lemma nodesOf_groupsOf: "nodesOf (groupsOf key is) = set is"
  by (auto simp: nodesOf_def groupsOf_def)

lemma group_of_index:
  "i \<in> set is \<Longrightarrow> (key i, filter (\<lambda>j. key j = key i) is) \<in> set (groupsOf key is)"
  by (auto simp: groupsOf_def)

lemma getObjectNodes_loop_snoc:
  "getObjectNodes_loop imf propdb (is @ [i]) st =
     getObjectNodes_body imf propdb i (getObjectNodes_loop imf propdb is st)"
  by (induction "is" arbitrary: st) auto

lemma getObjectNodes_loop_groups:
  "buildingNodes (getObjectNodes_loop imf propdb is
       \<lparr> buildingNodes = [], openingNodes = [], logged = [] \<rparr>) =
     groupsOf (keyAt imf propdb) (filter (\<lambda>i. isObjectAt imf i \<and> \<not> openingAt imf propdb i) is)
   \<and> openingNodes (getObjectNodes_loop imf propdb is
       \<lparr> buildingNodes = [], openingNodes = [], logged = [] \<rparr>) =
     groupsOf (keyAt imf propdb) (filter (\<lambda>i. isObjectAt imf i \<and> openingAt imf propdb i) is)"
proof (induction "is" rule: rev_induct)
  case Nil
  then show ?case by simp
next
  case (snoc i "is")
  show ?case
  proof (cases "getNode imf i")
    case (ObjectNode node)
    with snoc show ?thesis
      by (simp add: getObjectNodes_loop_snoc getObjectNodes_body_def isObjectAt_def
          openingAt_def keyAt_def groupsOf_snoc Let_def)
  next
    case (OtherNode kind)
    with snoc show ?thesis
      by (simp add: getObjectNodes_loop_snoc getObjectNodes_body_def isObjectAt_def
          openingAt_def)
  qed
qed


lemma getObjectNodes_buckets:
  "buildingNodes (getObjectNodes imf propdb) =
     groupsOf (keyAt imf propdb)
       (filter (\<lambda>i. isObjectAt imf i \<and> \<not> openingAt imf propdb i) [0 ..< getNodeCount imf])"
  "openingNodes (getObjectNodes imf propdb) =
     groupsOf (keyAt imf propdb)
       (filter (\<lambda>i. isObjectAt imf i \<and> openingAt imf propdb i) [0 ..< getNodeCount imf])"
  by (simp_all add: getObjectNodes_def getObjectNodes_loop_groups)

text \<open>
  C5 (an object node is put in the opening bucket if and only if there is a property
  database and its property \<open>Element:IfcExportAs\<close> of the node is exactly
  \<open>IfcOpeningElement\<close>, and in the regular bucket otherwise; without a property
  database the opening bucket is empty and the node is in the regular group named
  \<open>dbid-\<close> followed by its dbid). The function is total: nothing is raised.
\<close>

theorem getObjectNodes_opening_iff:
  assumes "i < getNodeCount imf" and "getNode imf i = ObjectNode node"
  shows "(i \<in> nodesOf (openingNodes (getObjectNodes imf propdb)) \<longleftrightarrow>
           (\<exists>db. propdb = Some db
               \<and> getProperties db (dbid node) ''Element:IfcExportAs'' = Some ''IfcOpeningElement''))
       \<and> (i \<in> nodesOf (buildingNodes (getObjectNodes imf propdb)) \<longleftrightarrow>
           \<not> (\<exists>db. propdb = Some db
               \<and> getProperties db (dbid node) ''Element:IfcExportAs'' = Some ''IfcOpeningElement''))
       \<and> openingNodes (getObjectNodes imf None) = []
       \<and> (\<exists>ns. (''dbid-'' @ natText (dbid node), ns) \<in> set (buildingNodes (getObjectNodes imf None))
               \<and> i \<in> set ns)"
proof -
  have op: "openingAt imf propdb i \<longleftrightarrow>
      (\<exists>db. propdb = Some db
          \<and> getProperties db (dbid node) ''Element:IfcExportAs'' = Some ''IfcOpeningElement'')"
    using assms(2) by (cases propdb) (simp_all add: openingAt_def isOpening_def)
  have obj: "isObjectAt imf i"
    using assms(2) by (simp add: isObjectAt_def)
  have none: "\<not> openingAt imf None j" for j
    by (simp add: openingAt_def isOpening_def split: INode.splits)
  have key: "keyAt imf None i = ''dbid-'' @ natText (dbid node)"
    using assms(2) by (simp add: keyAt_def groupKey_def)
  have mem: "i \<in> set (filter (\<lambda>j. isObjectAt imf j \<and> \<not> openingAt imf None j) [0 ..< getNodeCount imf])"
    using assms(1) obj none by simp
  have "(keyAt imf None i,
         filter (\<lambda>j. keyAt imf None j = keyAt imf None i)
           (filter (\<lambda>j. isObjectAt imf j \<and> \<not> openingAt imf None j) [0 ..< getNodeCount imf]))
        \<in> set (buildingNodes (getObjectNodes imf None))"
    unfolding getObjectNodes_buckets by (rule group_of_index [OF mem])
  moreover have "i \<in> set (filter (\<lambda>j. keyAt imf None j = keyAt imf None i)
           (filter (\<lambda>j. isObjectAt imf j \<and> \<not> openingAt imf None j) [0 ..< getNodeCount imf]))"
    using mem by simp
  ultimately have last: "\<exists>ns. (''dbid-'' @ natText (dbid node), ns)
        \<in> set (buildingNodes (getObjectNodes imf None)) \<and> i \<in> set ns"
    unfolding key by blast
  have empty: "openingNodes (getObjectNodes imf None) = []"
    by (simp add: getObjectNodes_buckets none)
  show ?thesis
    using assms(1) obj op last empty
    by (simp add: getObjectNodes_buckets nodesOf_groupsOf)
qed

lemmas group_eval = getObjectNodes_def getObjectNodes_body_def isOpening_def groupKey_def
  houseScene_def houseDb_def sceneOf_def natText.simps digit_def nodesOf_def Let_def

lemma houseScene_groups:
  "getObjectNodes houseScene (Some houseDb) =
     \<lparr> buildingNodes = [(''2O2Fr$t4X7Zf8NOew3FLOH'', [1, 3])],
       openingNodes = [(''dbid-12'', [2])],
       logged = [''Skipping node type 0''] \<rparr>"
  by (simp add: group_eval upt_rec)

lemma houseScene_groups_nodb:
  "getObjectNodes houseScene None =
     \<lparr> buildingNodes = [(''dbid-10'', [1]), (''dbid-12'', [2]), (''dbid-11'', [3])],
       openingNodes = [],
       logged = [''Skipping node type 0''] \<rparr>"
  by (simp add: group_eval upt_rec)

theorem getObjectNodes_opening_iff_witness:
  "2 < getNodeCount houseScene
   \<and> getNode houseScene 2 = ObjectNode \<lparr> dbid = 12, geometry = 0, transform = None \<rparr>
   \<and> 2 \<in> nodesOf (openingNodes (getObjectNodes houseScene (Some houseDb)))
   \<and> 2 \<notin> nodesOf (buildingNodes (getObjectNodes houseScene (Some houseDb)))
   \<and> getProperties houseDb 12 ''Element:IfcExportAs'' = Some ''IfcOpeningElement''
   \<and> openingNodes (getObjectNodes houseScene None) = []
   \<and> (''dbid-12'', [2]) \<in> set (buildingNodes (getObjectNodes houseScene None))"
proof -
  have h1: "2 < getNodeCount houseScene"
    by (simp add: houseScene_def sceneOf_def)
  have h2: "getNode houseScene 2 = ObjectNode \<lparr> dbid = 12, geometry = 0, transform = None \<rparr>"
    by (simp add: houseScene_def sceneOf_def)
  have p: "getProperties houseDb 12 ''Element:IfcExportAs'' = Some ''IfcOpeningElement''"
    by (simp add: houseDb_def)
  from getObjectNodes_opening_iff [OF h1 h2, of "Some houseDb"] p h1 h2
  show ?thesis
    by (simp add: houseScene_groups_nodb)
qed

text \<open>
  C6 (the key of an object node is the result of \<open>findPropertyRecursive\<close> for
  \<open>IFC:GLOBALID\<close>, \<open>Element:IfcGUID\<close>, or \<open>dbid-\<close> followed by the dbid when there is
  none; each bucket has one group for each key among its nodes, the keys in the order
  in which they are first seen and the nodes of a group in scene order).
\<close>

theorem getObjectNodes_groups:
  "buildingNodes (getObjectNodes imf propdb) =
     groupsOf (keyAt imf propdb)
       (filter (\<lambda>i. isObjectAt imf i \<and> \<not> openingAt imf propdb i) [0 ..< getNodeCount imf])
   \<and> openingNodes (getObjectNodes imf propdb) =
     groupsOf (keyAt imf propdb)
       (filter (\<lambda>i. isObjectAt imf i \<and> openingAt imf propdb i) [0 ..< getNodeCount imf])
   \<and> distinct (map fst (buildingNodes (getObjectNodes imf propdb)))
   \<and> distinct (map fst (openingNodes (getObjectNodes imf propdb)))
   \<and> keyAt imf propdb i =
       (case getNode imf i of
          OtherNode kind \<Rightarrow> []
        | ObjectNode node \<Rightarrow>
            (case propdb of
               None \<Rightarrow> ''dbid-'' @ natText (dbid node)
             | Some db \<Rightarrow>
                 (case findPropertyRecursive db (dbid node) [''IFC:GLOBALID'', ''Element:IfcGUID''] of
                    None \<Rightarrow> ''dbid-'' @ natText (dbid node)
                  | Some v \<Rightarrow> v)))"
  by (simp add: getObjectNodes_buckets distinct_groupsOf keyAt_def groupKey_def
      split: INode.splits option.splits)

theorem getObjectNodes_groups_witness:
  "buildingNodes (getObjectNodes houseScene (Some houseDb)) = [(''2O2Fr$t4X7Zf8NOew3FLOH'', [1, 3])]
   \<and> openingNodes (getObjectNodes houseScene (Some houseDb)) = [(''dbid-12'', [2])]
   \<and> groupsOf (keyAt houseScene (Some houseDb))
       (filter (\<lambda>i. isObjectAt houseScene i \<and> \<not> openingAt houseScene (Some houseDb) i)
          [0 ..< getNodeCount houseScene]) = [(''2O2Fr$t4X7Zf8NOew3FLOH'', [1, 3])]
   \<and> keyAt houseScene (Some houseDb) 3 = ''2O2Fr$t4X7Zf8NOew3FLOH''
   \<and> keyAt houseScene (Some houseDb) 2 = ''dbid-12''"
  using getObjectNodes_groups [of houseScene "Some houseDb" 3]
    getObjectNodes_groups [of houseScene "Some houseDb" 2]
  by (simp add: houseScene_groups) (simp add: group_eval)

section \<open>Properties of the writer\<close>

subsection \<open>Lines and their text\<close>

lemma join_Cons: "join (l # ls) = (if ls = [] then l else l @ newline # join ls)"
  by (cases ls) simp_all

lemma join_append:
  "join (xs @ ys) =
     (if xs = [] then join ys else if ys = [] then join xs else join xs @ newline # join ys)"
  by (induction xs) (auto simp: join_Cons)

lemma flushedText_Nil [simp]: "flushedText [] = []"
  by (simp add: flushedText_def)

lemma flushedText_append [simp]: "flushedText (xs @ ys) = flushedText xs @ flushedText ys"
  by (simp add: flushedText_def)

lemma flushedText_join: "ls \<noteq> [] \<Longrightarrow> flushedText ls = join ls @ [newline]"
  by (induction ls) (auto simp: flushedText_def join_Cons)

lemma flushedText_join_rest:
  "flushedText flushed @ join rest =
     (if rest = [] \<and> flushed \<noteq> [] then join (flushed @ rest) @ [newline]
      else join (flushed @ rest))"
  by (cases "flushed = []") (auto simp: flushedText_join join_append)

text \<open>
  A loop over an iterator makes one round for each whole number below its bound, so a
  mesh gives as many lines as its lengths, divided by 3 and rounded up, add up to.
\<close>

lemma length_readTriples: "length (readTriples v n it) = nat \<lceil>n\<rceil> - v"
proof (induction v n it rule: readTriples.induct)
  case (1 v n it)
  show ?case
  proof (cases "real v < n")
    case True
    then have "v < nat \<lceil>n\<rceil>" by linarith
    with True 1 show ?thesis
      by (subst readTriples.simps) simp
  next
    case False
    then have "nat \<lceil>n\<rceil> \<le> v" by linarith
    with False show ?thesis
      by (subst readTriples.simps) simp
  qed
qed

lemma length_meshLines:
  "length (meshLines F options tr rootScale off g) =
     nat \<lceil>numVertices g\<rceil>
     + (if skipNormals options then 0
        else case getNormals g of None \<Rightarrow> 0 | Some ns \<Rightarrow> nat \<lceil>real (length ns) / 3\<rceil>)
     + nat \<lceil>numIndices g\<rceil>"
  by (simp add: meshLines_def vertexLines_def normalLines_def faceLines_def length_readTriples
      split: option.splits)

subsection \<open>Runs with and without flushes\<close>









lemmas eval_simps = decimalString_def reciprocal_def vector3_def Math_round_def natText.simps
  digit_def readTriples.simps nextValue_def exactText_def triangle_def triangleScene_def
  linesScene_def sceneOf_def
  getObjectNodes_def getObjectNodes_body_def isOpening_def groupKey_def
  Writer_write_def writeObjects_def writeObjectsUnbounded_def writeObjectsWith_def writeNode_def
  checkFlush_def flush_def
  flushThreshold_def meshLines_def vertexLines_def normalLines_def faceLines_def faceString_def
  faceIndex_def numVertices_def numIndices_def writingNormals_def nodeTransform_def identity_def
  Matrix4_set_def getRootScale_def path_join_def Let_def

lemma triangle_threshold_1:
  "writeObjectsWith (Some 1) exactText \<lparr> skipNormals = False \<rparr> [(''dbid-7'', [0])]
       ''output.obj'' triangleScene 1 Map.empty =
     Inr [''output.obj'' \<mapsto>
            ''o dbid-7'' @ [newline] @ ''v 0 0 0'' @ [newline] @ ''v 1 0 0'' @ [newline]
              @ ''v 0 1 0'' @ [newline] @ ''f 1 2 3'' @ [newline]]"
  by (simp add: eval_simps)

lemma triangle_threshold_million:
  "writeObjectsWith (Some 1000000) exactText \<lparr> skipNormals = False \<rparr> [(''dbid-7'', [0])]
       ''output.obj'' triangleScene 1 Map.empty =
     Inr [''output.obj'' \<mapsto>
            ''o dbid-7'' @ [newline] @ ''v 0 0 0'' @ [newline] @ ''v 1 0 0'' @ [newline]
              @ ''v 0 1 0'' @ [newline] @ ''f 1 2 3'']"
  by (simp add: eval_simps)

lemma length_cloud_lines:
  "length (meshLines F \<lparr> skipNormals = False \<rparr> tr rootScale off cloud) = 50000"
  by (simp add: length_meshLines cloud_def numVertices_def numIndices_def)

lemma cloud_flushed:
  "writeObjects F \<lparr> skipNormals = False \<rparr> [(''dbid-7'', [0])] ''output.obj'' cloudScene 1 Map.empty =
     Inr [''output.obj'' \<mapsto>
            join (''o dbid-7'' # meshLines F \<lparr> skipNormals = False \<rparr> (Some identity) 1 1 cloud)
              @ [newline]]"
  by (simp add: writeObjects_def writeObjectsWith_def writeNode_def cloudScene_def sceneOf_def
      checkFlush_def flush_def flushThreshold_def nodeTransform_def length_cloud_lines Let_def)

lemma cloud_unbounded:
  "writeObjectsUnbounded F \<lparr> skipNormals = False \<rparr> [(''dbid-7'', [0])] ''output.obj'' cloudScene 1
       Map.empty =
     Inr [''output.obj'' \<mapsto>
            join (''o dbid-7'' # meshLines F \<lparr> skipNormals = False \<rparr> (Some identity) 1 1 cloud)]"
  by (simp add: writeObjectsUnbounded_def writeObjectsWith_def writeNode_def cloudScene_def
      sceneOf_def checkFlush_def nodeTransform_def Let_def)

text \<open>
  The scene of the single triangle is written as the specification expects: the file
  of the regular elements holds the header, three vertex lines and the face
  \<open>f 1 2 3\<close>, the file of the openings is empty. A scene without nodes gives two
  empty files.
\<close>

lemma triangleScene_written:
  "Writer_write exactText \<lparr> skipNormals = False \<rparr> triangleScene ''out'' None Map.empty =
     Inr ([''out/output.obj'' \<mapsto>
             join [''o dbid-7'', ''v 0 0 0'', ''v 1 0 0'', ''v 0 1 0'', ''f 1 2 3''],
           ''out/openings.obj'' \<mapsto> []],
          [''Finished writing OBJ''])"
  by (simp add: eval_simps)

lemma empty_scene_written:
  "Writer_write F options (sceneOf [] []) ''out'' propdb Map.empty =
     Inr ([''out/output.obj'' \<mapsto> [], ''out/openings.obj'' \<mapsto> []],
          [''Finished writing OBJ''])"
  by (simp add: Writer_write_def getObjectNodes_def sceneOf_def writeObjects_def
      writeObjectsWith_def path_join_def Let_def)

text \<open>
  C1 (the file written with the threshold of 50000 lines is byte for byte the file of
  an unbounded single write, and of any other threshold). It is not: a flush ends its
  last line with a newline, the final write does not. A mesh of 50000 vertices fills
  the buffer to 50001 lines, is flushed, and the file ends with a newline that the
  unbounded write does not have; the single triangle gives the same difference between
  the thresholds 1 and 1000000.
\<close>

theorem flush_threshold_changes_file:
  "writeObjects exactText \<lparr> skipNormals = False \<rparr> [(''dbid-7'', [0])] ''output.obj''
       cloudScene 1 Map.empty
     \<noteq> writeObjectsUnbounded exactText \<lparr> skipNormals = False \<rparr> [(''dbid-7'', [0])] ''output.obj''
       cloudScene 1 Map.empty
   \<and> writeObjectsWith (Some 1) exactText \<lparr> skipNormals = False \<rparr> [(''dbid-7'', [0])]
       ''output.obj'' triangleScene 1 Map.empty
     \<noteq> writeObjectsWith (Some 1000000) exactText \<lparr> skipNormals = False \<rparr> [(''dbid-7'', [0])]
       ''output.obj'' triangleScene 1 Map.empty"
proof
  show "writeObjects exactText \<lparr> skipNormals = False \<rparr> [(''dbid-7'', [0])] ''output.obj''
       cloudScene 1 Map.empty
     \<noteq> writeObjectsUnbounded exactText \<lparr> skipNormals = False \<rparr> [(''dbid-7'', [0])] ''output.obj''
       cloudScene 1 Map.empty"
    unfolding cloud_flushed cloud_unbounded
    by (auto dest!: map_upd_eqD1)
  show "writeObjectsWith (Some 1) exactText \<lparr> skipNormals = False \<rparr> [(''dbid-7'', [0])]
       ''output.obj'' triangleScene 1 Map.empty
     \<noteq> writeObjectsWith (Some 1000000) exactText \<lparr> skipNormals = False \<rparr> [(''dbid-7'', [0])]
       ''output.obj'' triangleScene 1 Map.empty"
    unfolding triangle_threshold_1 triangle_threshold_million
    by (auto dest!: map_upd_eqD1)
qed

text \<open>
  The stronger relation is kept by every step of the loop as well, also up to a throw.
\<close>

lemma flushedLines_eq:
  "outputBuffer su = flushed @ outputBuffer st \<Longrightarrow> flushedLines st su = flushed"
  by (simp add: flushedLines_def)

lemma inStep_iff:
  "inStep T st su \<longleftrightarrow>
     indexOffset st = indexOffset su \<and> outputFile su = []
     \<and> (\<exists>flushed. outputFile st = flushedText flushed
            \<and> outputBuffer su = flushed @ outputBuffer st
            \<and> (flushed = [] \<or> T < length flushed))"
  (is "?l \<longleftrightarrow> ?r")
proof
  assume ?l
  then show ?r unfolding inStep_def by blast
next
  assume r: ?r
  then obtain flushed where f: "outputFile st = flushedText flushed"
      "outputBuffer su = flushed @ outputBuffer st" "flushed = [] \<or> T < length flushed"
    by blast
  from f(2) have "flushedLines st su = flushed" by (rule flushedLines_eq)
  with r f show ?l unfolding inStep_def by simp
qed

lemma inStep_push:
  "inStep T st su \<Longrightarrow>
   inStep T (st\<lparr>outputBuffer := outputBuffer st @ ls\<rparr>) (su\<lparr>outputBuffer := outputBuffer su @ ls\<rparr>)"
  unfolding inStep_iff by auto

lemma inStep_offset:
  "inStep T st su \<Longrightarrow>
   inStep T (st\<lparr>indexOffset := indexOffset st + d\<rparr>) (su\<lparr>indexOffset := indexOffset su + d\<rparr>)"
  unfolding inStep_iff by auto

lemma inStep_checkFlush:
  assumes "inStep T st su"
  shows "inStep T (checkFlush (Some T) st) (checkFlush None su)"
proof (cases "length (outputBuffer st) > T")
  case True
  then have ne: "outputBuffer st \<noteq> []" by auto
  from assms obtain flushed where
    f: "outputFile st = flushedText flushed" "outputBuffer su = flushed @ outputBuffer st"
    and o: "indexOffset st = indexOffset su" "outputFile su = []"
    unfolding inStep_iff by blast
  have 1: "outputFile (flush st) = flushedText (flushed @ outputBuffer st)"
    using f ne by (simp add: flush_def flushedText_join)
  have 2: "outputBuffer su = (flushed @ outputBuffer st) @ outputBuffer (flush st)"
    using f by (simp add: flush_def)
  have 3: "T < length (flushed @ outputBuffer st)"
    using True by simp
  have 4: "indexOffset (flush st) = indexOffset su"
    using o by (simp add: flush_def)
  have "inStep T (flush st) su"
    unfolding inStep_iff using 1 2 3 4 o(2) by blast
  with True show ?thesis by (simp add: checkFlush_def)
next
  case False
  with assms show ?thesis by (simp add: checkFlush_def)
qed

lemma writeNode_inStep:
  assumes "inStep T st su"
  shows "inStepOutcome T (writeNode F options (Some T) scene rootScale st n)
           (writeNode F options None scene rootScale su n)"
proof (cases "getNode scene n")
  case (OtherNode kind)
  with assms show ?thesis by (simp add: writeNode_def inStepOutcome_def)
next
  case (ObjectNode node)
  show ?thesis
  proof (cases "getGeometry scene (geometry node)")
    case (OtherGeometry kind)
    with ObjectNode assms show ?thesis by (simp add: writeNode_def inStepOutcome_def)
  next
    case (Mesh g)
    have off: "indexOffset st = indexOffset su"
      using assms by (simp add: inStep_def)
    define ls where "ls = meshLines F options (nodeTransform node) rootScale (indexOffset st) g"
    have "inStep T
        (checkFlush (Some T) (st\<lparr>outputBuffer := outputBuffer st @ ls,
                                  indexOffset := indexOffset st + numVertices g\<rparr>))
        (checkFlush None (su\<lparr>outputBuffer := outputBuffer su @ ls,
                               indexOffset := indexOffset su + numVertices g\<rparr>))"
      using inStep_offset [OF inStep_push [OF assms, of ls], of "numVertices g"]
      by (intro inStep_checkFlush) simp
    with ObjectNode Mesh off show ?thesis
      by (simp add: writeNode_def inStepOutcome_def Let_def ls_def)
  qed
qed

lemma inStepOutcome_bind:
  assumes "inStepOutcome T rt ru"
    and "\<And>st su. inStep T st su \<Longrightarrow> inStepOutcome T (f st) (g su)"
  shows "inStepOutcome T (case rt of Inl e \<Rightarrow> Inl e | Inr st \<Rightarrow> f st)
           (case ru of Inl e \<Rightarrow> Inl e | Inr su \<Rightarrow> g su)"
proof (cases ru)
  case (Inl a)
  with assms(1) show ?thesis
    by (cases a) (auto simp: inStepOutcome_def)
next
  case (Inr su)
  with assms(1) obtain st where "rt = Inr st" "inStep T st su"
    by (auto simp: inStepOutcome_def)
  with Inr assms(2) show ?thesis by simp
qed

lemma writeNodes_inStep:
  "inStep T st su \<Longrightarrow>
   inStepOutcome T (writeNodes F options (Some T) scene rootScale st ns)
     (writeNodes F options None scene rootScale su ns)"
proof (induction ns arbitrary: st su)
  case Nil
  then show ?case by (simp add: inStepOutcome_def)
next
  case (Cons n ns)
  show ?case
    unfolding writeNodes.simps
    by (rule inStepOutcome_bind [OF writeNode_inStep [OF Cons.prems] Cons.IH])
qed

lemma writeGroups_inStep:
  "inStep T st su \<Longrightarrow>
   inStepOutcome T (writeGroups F options (Some T) scene rootScale st groups)
     (writeGroups F options None scene rootScale su groups)"
proof (induction groups arbitrary: st su)
  case Nil
  then show ?case by (simp add: inStepOutcome_def)
next
  case (Cons group groups)
  obtain gid ns where group: "group = (gid, ns)" by (cases group)
  show ?case
    unfolding group writeGroups.simps
    by (rule inStepOutcome_bind
        [OF writeNodes_inStep [OF inStep_push [OF Cons.prems]] Cons.IH])
qed

lemma inStep_initial:
  "inStep T \<lparr> outputBuffer = [], indexOffset = 1, outputFile = [] \<rparr>
     \<lparr> outputBuffer = [], indexOffset = 1, outputFile = [] \<rparr>"
  by (simp add: inStep_def flushedLines_def)

lemma flush_whole_lines:
  "checkFlush (Some T) s =
     (if T < length (outputBuffer s)
      then s\<lparr>outputFile := outputFile s @ flushedText (outputBuffer s), outputBuffer := []\<rparr>
      else s)"
proof (cases "T < length (outputBuffer s)")
  case True
  then have "outputBuffer s \<noteq> []" by auto
  with True show ?thesis
    by (simp add: checkFlush_def flush_def flushedText_join)
next
  case False
  then show ?thesis by (simp add: checkFlush_def)
qed

lemma inStep_file:
  assumes "inStep T st su"
  shows "outputFile st @ join (outputBuffer st) =
      (if outputBuffer st = [] \<and> flushedLines st su \<noteq> [] then join (outputBuffer su) @ [newline]
       else join (outputBuffer su))"
    and "outputFile su @ join (outputBuffer su) = join (outputBuffer su)"
    and "T < length (outputBuffer su) \<or> (outputFile st = [] \<and> outputBuffer st = outputBuffer su)"
proof -
  from assms have f: "outputFile st = flushedText (flushedLines st su)"
    and b: "outputBuffer su = flushedLines st su @ outputBuffer st"
    and u: "outputFile su = []"
    and t: "flushedLines st su = [] \<or> T < length (flushedLines st su)"
    by (simp_all add: inStep_def)
  show "outputFile st @ join (outputBuffer st) =
      (if outputBuffer st = [] \<and> flushedLines st su \<noteq> [] then join (outputBuffer su) @ [newline]
       else join (outputBuffer su))"
    using flushedText_join_rest [of "flushedLines st su" "outputBuffer st"] f b by simp
  show "outputFile su @ join (outputBuffer su) = join (outputBuffer su)"
    using u by simp
  show "T < length (outputBuffer su) \<or> (outputFile st = [] \<and> outputBuffer st = outputBuffer su)"
  proof (cases "flushedLines st su = []")
    case True
    with f b show ?thesis by simp
  next
    case False
    with t have "T < length (flushedLines st su)" by simp
    also have "\<dots> \<le> length (outputBuffer su)" by (simp add: flushedLines_def)
    finally show ?thesis by simp
  qed
qed

lemma cloud_run_unbounded:
  "writeGroups F \<lparr> skipNormals = False \<rparr> None cloudScene 1
       \<lparr> outputBuffer = [], indexOffset = 1, outputFile = [] \<rparr> [(''dbid-7'', [0])] =
     Inr \<lparr> outputBuffer = ''o dbid-7'' # meshLines F \<lparr> skipNormals = False \<rparr> (Some identity) 1 1 cloud,
           indexOffset = 50001, outputFile = [] \<rparr>"
  by (simp add: writeNode_def cloudScene_def sceneOf_def checkFlush_def nodeTransform_def
      numVertices_def cloud_def Let_def)

lemma cloud_run_flushed:
  "writeGroups F \<lparr> skipNormals = False \<rparr> (Some flushThreshold) cloudScene 1
       \<lparr> outputBuffer = [], indexOffset = 1, outputFile = [] \<rparr> [(''dbid-7'', [0])] =
     Inr \<lparr> outputBuffer = [], indexOffset = 50001,
           outputFile = join (''o dbid-7'' # meshLines F \<lparr> skipNormals = False \<rparr> (Some identity) 1 1 cloud)
                          @ [newline] \<rparr>"
proof -
  have nv: "numVertices cloud = 50000"
    by (simp add: numVertices_def cloud_def)
  show ?thesis
    by (simp add: writeNode_def cloudScene_def sceneOf_def checkFlush_def flush_def
        flushThreshold_def nodeTransform_def length_cloud_lines nv Let_def del: join.simps)
qed

text \<open>
  C1 as amended, for every threshold \<open>T\<close>. The run with the threshold throws exactly
  when the run without flushes throws, with the same error, and returns when it
  returns. In both cases its state \<open>st\<close> is in step with the state \<open>su\<close> of the other:
  the file holds the first lines that \<open>su\<close> buffers, each ended by a newline, the
  buffer holds the others, and if any line was flushed, more than \<open>T\<close> were. When the
  runs return, the file is the file of the unbounded write, with one more newline at
  its end exactly when lines were flushed and no line is left in the buffer; it is the
  same file whenever the unbounded write has at most \<open>T\<close> lines. When the runs throw,
  the unbounded write leaves an empty file and the run with the threshold leaves the
  flushed lines. A flush, the only write inside the loop, appends all buffered lines,
  each ended by a newline, so it never ends inside a line.
\<close>

theorem writeObjects_up_to_newline:
  "(case writeGroups F options None scene rootScale
           \<lparr> outputBuffer = [], indexOffset = 1, outputFile = [] \<rparr> objectNodes of
      Inl (e, su) \<Rightarrow>
        (\<exists>st. writeGroups F options (Some T) scene rootScale
                 \<lparr> outputBuffer = [], indexOffset = 1, outputFile = [] \<rparr> objectNodes = Inl (e, st)
            \<and> inStep T st su
            \<and> writeObjectsUnbounded F options objectNodes outputPath scene rootScale fs
                = Inl (e, fs(outputPath \<mapsto> []))
            \<and> writeObjectsWith (Some T) F options objectNodes outputPath scene rootScale fs
                = Inl (e, fs(outputPath \<mapsto> flushedText (flushedLines st su))))
    | Inr su \<Rightarrow>
        (\<exists>st. writeGroups F options (Some T) scene rootScale
                 \<lparr> outputBuffer = [], indexOffset = 1, outputFile = [] \<rparr> objectNodes = Inr st
            \<and> inStep T st su
            \<and> writeObjectsUnbounded F options objectNodes outputPath scene rootScale fs
                = Inr (fs(outputPath \<mapsto> join (outputBuffer su)))
            \<and> writeObjectsWith (Some T) F options objectNodes outputPath scene rootScale fs
                = Inr (fs(outputPath \<mapsto>
                         (if outputBuffer st = [] \<and> flushedLines st su \<noteq> []
                          then join (outputBuffer su) @ [newline]
                          else join (outputBuffer su))))
            \<and> (T < length (outputBuffer su)
                \<or> writeObjectsWith (Some T) F options objectNodes outputPath scene rootScale fs
                    = writeObjectsUnbounded F options objectNodes outputPath scene rootScale fs)))
   \<and> checkFlush (Some T) s =
       (if T < length (outputBuffer s)
        then s\<lparr>outputFile := outputFile s @ flushedText (outputBuffer s), outputBuffer := []\<rparr>
        else s)"
proof (rule conjI)
  define ru where "ru = writeGroups F options None scene rootScale
      \<lparr> outputBuffer = [], indexOffset = 1, outputFile = [] \<rparr> objectNodes"
  define rt where "rt = writeGroups F options (Some T) scene rootScale
      \<lparr> outputBuffer = [], indexOffset = 1, outputFile = [] \<rparr> objectNodes"
  have sim: "inStepOutcome T rt ru"
    unfolding rt_def ru_def by (rule writeGroups_inStep [OF inStep_initial])
  have main: "case ru of
      Inl (e, su) \<Rightarrow>
        (\<exists>st. writeGroups F options (Some T) scene rootScale
                 \<lparr> outputBuffer = [], indexOffset = 1, outputFile = [] \<rparr> objectNodes = Inl (e, st)
            \<and> inStep T st su
            \<and> writeObjectsUnbounded F options objectNodes outputPath scene rootScale fs
                = Inl (e, fs(outputPath \<mapsto> []))
            \<and> writeObjectsWith (Some T) F options objectNodes outputPath scene rootScale fs
                = Inl (e, fs(outputPath \<mapsto> flushedText (flushedLines st su))))
    | Inr su \<Rightarrow>
        (\<exists>st. writeGroups F options (Some T) scene rootScale
                 \<lparr> outputBuffer = [], indexOffset = 1, outputFile = [] \<rparr> objectNodes = Inr st
            \<and> inStep T st su
            \<and> writeObjectsUnbounded F options objectNodes outputPath scene rootScale fs
                = Inr (fs(outputPath \<mapsto> join (outputBuffer su)))
            \<and> writeObjectsWith (Some T) F options objectNodes outputPath scene rootScale fs
                = Inr (fs(outputPath \<mapsto>
                         (if outputBuffer st = [] \<and> flushedLines st su \<noteq> []
                          then join (outputBuffer su) @ [newline]
                          else join (outputBuffer su))))
            \<and> (T < length (outputBuffer su)
                \<or> writeObjectsWith (Some T) F options objectNodes outputPath scene rootScale fs
                    = writeObjectsUnbounded F options objectNodes outputPath scene rootScale fs))"
  proof (cases ru)
    case (Inl a)
    obtain e su where a: "a = (e, su)" by (cases a)
    from sim Inl a obtain st where st: "rt = Inl (e, st)" and step: "inStep T st su"
      by (auto simp: inStepOutcome_def)
    have u: "writeObjectsUnbounded F options objectNodes outputPath scene rootScale fs
        = Inl (e, fs(outputPath \<mapsto> []))"
      using Inl a step
      by (simp add: writeObjectsUnbounded_def writeObjectsWith_def inStep_def flip: ru_def)
    have t: "writeObjectsWith (Some T) F options objectNodes outputPath scene rootScale fs
        = Inl (e, fs(outputPath \<mapsto> flushedText (flushedLines st su)))"
      using st step by (simp add: writeObjectsWith_def inStep_def flip: rt_def)
    show ?thesis
      unfolding Inl a sum.case prod.case
      by (intro exI [of _ st] conjI st [unfolded rt_def] step u t)
  next
    case (Inr su)
    with sim obtain st where st: "rt = Inr st" and step: "inStep T st su"
      by (auto simp: inStepOutcome_def)
    note files = inStep_file [OF step]
    have u: "writeObjectsUnbounded F options objectNodes outputPath scene rootScale fs
        = Inr (fs(outputPath \<mapsto> join (outputBuffer su)))"
      using Inr files(2)
      by (simp add: writeObjectsUnbounded_def writeObjectsWith_def flip: ru_def)
    have t: "writeObjectsWith (Some T) F options objectNodes outputPath scene rootScale fs
        = Inr (fs(outputPath \<mapsto>
                 (if outputBuffer st = [] \<and> flushedLines st su \<noteq> []
                  then join (outputBuffer su) @ [newline]
                  else join (outputBuffer su))))"
      using st files(1) by (simp add: writeObjectsWith_def flip: rt_def)
    have same: "T < length (outputBuffer su)
        \<or> writeObjectsWith (Some T) F options objectNodes outputPath scene rootScale fs
            = writeObjectsUnbounded F options objectNodes outputPath scene rootScale fs"
    proof (cases "T < length (outputBuffer su)")
      case True
      then show ?thesis by simp
    next
      case False
      with files(3) have "outputFile st = []" "outputBuffer st = outputBuffer su" by simp_all
      with st have "writeObjectsWith (Some T) F options objectNodes outputPath scene rootScale fs
          = Inr (fs(outputPath \<mapsto> join (outputBuffer su)))"
        by (simp add: writeObjectsWith_def flip: rt_def)
      with u show ?thesis by simp
    qed
    show ?thesis
      unfolding Inr sum.case
      by (intro exI [of _ st] conjI st [unfolded rt_def] step u t same)
  qed
  then show "case writeGroups F options None scene rootScale
           \<lparr> outputBuffer = [], indexOffset = 1, outputFile = [] \<rparr> objectNodes of
      Inl (e, su) \<Rightarrow>
        (\<exists>st. writeGroups F options (Some T) scene rootScale
                 \<lparr> outputBuffer = [], indexOffset = 1, outputFile = [] \<rparr> objectNodes = Inl (e, st)
            \<and> inStep T st su
            \<and> writeObjectsUnbounded F options objectNodes outputPath scene rootScale fs
                = Inl (e, fs(outputPath \<mapsto> []))
            \<and> writeObjectsWith (Some T) F options objectNodes outputPath scene rootScale fs
                = Inl (e, fs(outputPath \<mapsto> flushedText (flushedLines st su))))
    | Inr su \<Rightarrow>
        (\<exists>st. writeGroups F options (Some T) scene rootScale
                 \<lparr> outputBuffer = [], indexOffset = 1, outputFile = [] \<rparr> objectNodes = Inr st
            \<and> inStep T st su
            \<and> writeObjectsUnbounded F options objectNodes outputPath scene rootScale fs
                = Inr (fs(outputPath \<mapsto> join (outputBuffer su)))
            \<and> writeObjectsWith (Some T) F options objectNodes outputPath scene rootScale fs
                = Inr (fs(outputPath \<mapsto>
                         (if outputBuffer st = [] \<and> flushedLines st su \<noteq> []
                          then join (outputBuffer su) @ [newline]
                          else join (outputBuffer su))))
            \<and> (T < length (outputBuffer su)
                \<or> writeObjectsWith (Some T) F options objectNodes outputPath scene rootScale fs
                    = writeObjectsUnbounded F options objectNodes outputPath scene rootScale fs))"
    unfolding ru_def .
qed (rule flush_whole_lines)

theorem writeObjects_up_to_newline_witness:
  "writeGroups exactText \<lparr> skipNormals = False \<rparr> None cloudScene 1
       \<lparr> outputBuffer = [], indexOffset = 1, outputFile = [] \<rparr> [(''dbid-7'', [0])] =
     Inr \<lparr> outputBuffer = ''o dbid-7'' # meshLines exactText \<lparr> skipNormals = False \<rparr> (Some identity) 1 1 cloud,
           indexOffset = 50001, outputFile = [] \<rparr>
   \<and> writeGroups exactText \<lparr> skipNormals = False \<rparr> (Some flushThreshold) cloudScene 1
       \<lparr> outputBuffer = [], indexOffset = 1, outputFile = [] \<rparr> [(''dbid-7'', [0])] =
     Inr \<lparr> outputBuffer = [], indexOffset = 50001,
           outputFile = join (''o dbid-7'' # meshLines exactText \<lparr> skipNormals = False \<rparr> (Some identity) 1 1 cloud)
                          @ [newline] \<rparr>
   \<and> inStep flushThreshold
       \<lparr> outputBuffer = [], indexOffset = 50001,
         outputFile = join (''o dbid-7'' # meshLines exactText \<lparr> skipNormals = False \<rparr> (Some identity) 1 1 cloud)
                        @ [newline] \<rparr>
       \<lparr> outputBuffer = ''o dbid-7'' # meshLines exactText \<lparr> skipNormals = False \<rparr> (Some identity) 1 1 cloud,
         indexOffset = 50001, outputFile = [] \<rparr>
   \<and> length (''o dbid-7'' # meshLines exactText \<lparr> skipNormals = False \<rparr> (Some identity) 1 1 cloud)
       = flushThreshold + 1
   \<and> writeObjectsWith (Some flushThreshold) exactText \<lparr> skipNormals = False \<rparr> [(''dbid-7'', [0])]
       ''output.obj'' cloudScene 1 Map.empty =
     Inr [''output.obj'' \<mapsto>
            join (''o dbid-7'' # meshLines exactText \<lparr> skipNormals = False \<rparr> (Some identity) 1 1 cloud)
              @ [newline]]
   \<and> writeObjectsUnbounded exactText \<lparr> skipNormals = False \<rparr> [(''dbid-7'', [0])]
       ''output.obj'' cloudScene 1 Map.empty =
     Inr [''output.obj'' \<mapsto>
            join (''o dbid-7'' # meshLines exactText \<lparr> skipNormals = False \<rparr> (Some identity) 1 1 cloud)]"
proof -
  define ls where "ls = ''o dbid-7'' # meshLines exactText \<lparr> skipNormals = False \<rparr> (Some identity) 1 1 cloud"
  define su where "su = \<lparr> outputBuffer = ls, indexOffset = 50001, outputFile = [] \<rparr>"
  define st0 where "st0 = \<lparr> outputBuffer = [], indexOffset = 50001, outputFile = join ls @ [newline] \<rparr>"
  have u: "writeGroups exactText \<lparr> skipNormals = False \<rparr> None cloudScene 1
       \<lparr> outputBuffer = [], indexOffset = 1, outputFile = [] \<rparr> [(''dbid-7'', [0])] = Inr su"
    unfolding su_def ls_def by (rule cloud_run_unbounded)
  have t: "writeGroups exactText \<lparr> skipNormals = False \<rparr> (Some flushThreshold) cloudScene 1
       \<lparr> outputBuffer = [], indexOffset = 1, outputFile = [] \<rparr> [(''dbid-7'', [0])] = Inr st0"
    unfolding st0_def ls_def by (rule cloud_run_flushed)
  have len: "length ls = flushThreshold + 1"
    by (simp add: ls_def length_cloud_lines flushThreshold_def)
  have fl: "flushedLines st0 su = ls"
    by (simp add: flushedLines_def st0_def su_def)
  have ne: "ls \<noteq> []" by (simp add: ls_def)
  from writeObjects_up_to_newline [where F = exactText and options = "\<lparr> skipNormals = False \<rparr>"
      and scene = cloudScene and rootScale = 1 and objectNodes = "[(''dbid-7'', [0])]"
      and T = flushThreshold and outputPath = "''output.obj''" and fs = Map.empty,
      THEN conjunct1, unfolded u sum.case]
  obtain st where st: "writeGroups exactText \<lparr> skipNormals = False \<rparr> (Some flushThreshold)
        cloudScene 1 \<lparr> outputBuffer = [], indexOffset = 1, outputFile = [] \<rparr> [(''dbid-7'', [0])]
        = Inr st"
    and step: "inStep flushThreshold st su"
    and wu: "writeObjectsUnbounded exactText \<lparr> skipNormals = False \<rparr> [(''dbid-7'', [0])]
       ''output.obj'' cloudScene 1 Map.empty = Inr [''output.obj'' \<mapsto> join (outputBuffer su)]"
    and wt: "writeObjectsWith (Some flushThreshold) exactText \<lparr> skipNormals = False \<rparr>
       [(''dbid-7'', [0])] ''output.obj'' cloudScene 1 Map.empty =
       Inr [''output.obj'' \<mapsto>
              (if outputBuffer st = [] \<and> flushedLines st su \<noteq> []
               then join (outputBuffer su) @ [newline] else join (outputBuffer su))]"
    by blast
  from st t have eq: "st = st0" by simp
  have b: "outputBuffer st0 = []" "outputBuffer su = ls"
    by (simp_all add: st0_def su_def)
  show ?thesis
    using u t step wu wt len
    unfolding eq fl b
    by (simp add: ne flip: ls_def su_def st0_def)
qed

subsection \<open>Geometries that are not meshes\<close>

text \<open>
  C7 (a member node whose geometry is not a mesh is skipped with a diagnostic log
  line). The node is skipped, but \<open>writeObjects\<close> passes nothing to the log: for the
  scene of one node with a geometry of another kind, the only message of the whole run
  is the final one.
\<close>

theorem writeObjects_silent_skip:
  "Writer_write exactText \<lparr> skipNormals = False \<rparr> linesScene ''out'' None Map.empty =
     Inr ([''out/output.obj'' \<mapsto> ''o dbid-7'', ''out/openings.obj'' \<mapsto> []],
          [''Finished writing OBJ''])"
  by (simp add: eval_simps)

subsection \<open>The running vertex offset\<close>























subsection \<open>Groups without a mesh\<close>

text \<open>
  C9 (the header line of a group is pushed before any geometry of its members is
  looked at: a group whose members all have a geometry that is no mesh gives its
  header line and no vertex, normal or face line). Such a group changes the state by
  its header line only, and the loop goes on with the next group; in the lines of the
  bucket it stands for its header alone.
\<close>

theorem header_of_group_without_mesh:
  assumes "\<forall>n \<in> set nodes. \<exists>node kind. getNode scene n = ObjectNode node
              \<and> getGeometry scene (geometry node) = OtherGeometry kind"
  shows "writeGroups F options threshold scene rootScale st ((gid, nodes) # groups) =
           writeGroups F options threshold scene rootScale
             (st\<lparr>outputBuffer := outputBuffer st @ [''o '' @ gid]\<rparr>) groups
       \<and> groupsLines F options scene rootScale earlier ((gid, nodes) # groups) =
           (''o '' @ gid) # groupsLines F options scene rootScale (earlier @ nodes) groups"
proof -
  have skip: "writeNodes F options threshold scene rootScale st0 nodes = Inr st0" for st0
    using assms
  proof (induction nodes)
    case Nil
    then show ?case by simp
  next
    case (Cons n ns)
    then obtain node kind where "getNode scene n = ObjectNode node"
      and "getGeometry scene (geometry node) = OtherGeometry kind"
      by auto
    then have "writeNode F options threshold scene rootScale st0 n = Inr st0"
      by (simp add: writeNode_def)
    with Cons show ?case by simp
  qed
  have none: "nodesLines F options scene rootScale earlier0 nodes = []" for earlier0
    using assms
  proof (induction nodes arbitrary: earlier0)
    case Nil
    then show ?case by simp
  next
    case (Cons n ns)
    then obtain node kind where "getNode scene n = ObjectNode node"
      and "getGeometry scene (geometry node) = OtherGeometry kind"
      by auto
    then have "nodeLinesAt F options scene rootScale (offsetAfter scene earlier0) n = []"
      by (simp add: nodeLinesAt_def meshAt_def)
    with Cons show ?case by simp
  qed
  show ?thesis
    by (simp add: skip none)
qed

theorem header_of_group_without_mesh_witness:
  "getNode linesScene 0 = ObjectNode \<lparr> dbid = 7, geometry = 0, transform = None \<rparr>
   \<and> getGeometry linesScene 0 = OtherGeometry ''1''
   \<and> writeGroups exactText \<lparr> skipNormals = False \<rparr> (Some flushThreshold) linesScene 1
        \<lparr> outputBuffer = [], indexOffset = 1, outputFile = [] \<rparr> [(''dbid-7'', [0])] =
      Inr \<lparr> outputBuffer = [''o dbid-7''], indexOffset = 1, outputFile = [] \<rparr>
   \<and> groupsLines exactText \<lparr> skipNormals = False \<rparr> linesScene 1 [] [(''dbid-7'', [0])] =
      [''o dbid-7'']"
proof -
  have h: "\<forall>n \<in> set [0]. \<exists>node kind. getNode linesScene n = ObjectNode node
        \<and> getGeometry linesScene (geometry node) = OtherGeometry kind"
    by (simp add: linesScene_def sceneOf_def)
  from header_of_group_without_mesh [OF h, of exactText "\<lparr> skipNormals = False \<rparr>"
      "Some flushThreshold" 1 "\<lparr> outputBuffer = [], indexOffset = 1, outputFile = [] \<rparr>"
      "''dbid-7''" "[]" "[]"]
  show ?thesis by (simp add: linesScene_def sceneOf_def)
qed

subsection \<open>When the buffer is flushed\<close>
















end
